theory Spec2Isabelle
  imports Main
begin

section \<open>The publishing workflow\<close>

text \<open>
  The workflow file of the repository, field by field. Only the keys the file writes are
  fields of the records; a key the file leaves out (a job's \<open>if\<close> or \<open>needs\<close>) is
  \<open>None\<close> or the empty list.
\<close>

record step =
  step_name :: "string option"
  step_id :: "string option"
  step_uses :: "string option"
  step_run :: "string option"
  step_with :: "(string \<times> string) list"

record job =
  job_id :: string
  job_if :: "string option"
  job_needs :: "string list"
  job_environment :: "(string \<times> string) list"
  runs_on :: string
  steps :: "step list"

record concurrency =
  group :: string
  cancel_in_progress :: bool

datatype trigger = OnPush "string list"

record workflow =
  wf_name :: string
  wf_on :: "trigger list"
  wf_env :: "(string \<times> string) list"
  wf_permissions :: "(string \<times> string) list"
  wf_concurrency :: "concurrency option"
  wf_jobs :: "job list"

definition uses_step :: "string \<Rightarrow> step" where
  "uses_step a = \<lparr>step_name = None, step_id = None, step_uses = Some a, step_run = None,
     step_with = []\<rparr>"

definition deploy_steps :: "step list" where
  "deploy_steps =
    [ uses_step ''actions/checkout@v4'',
      (uses_step ''actions/configure-pages@v3'')\<lparr>step_name := Some ''Setup Pages''\<rparr>,
      (uses_step ''actions/setup-node@v4'')\<lparr>step_with := [(''node-version'', ''18.x'')]\<rparr>,
      \<lparr>step_name = Some ''Install MyST Markdown'', step_id = None, step_uses = None,
        step_run = Some ''npm install -g mystmd'', step_with = []\<rparr>,
      \<lparr>step_name = Some ''Build HTML Assets'', step_id = None, step_uses = None,
        step_run = Some ''myst build --html'', step_with = []\<rparr>,
      (uses_step ''actions/upload-pages-artifact@v3'')
        \<lparr>step_name := Some ''Upload artifact'', step_with := [(''path'', ''./_build/html'')]\<rparr>,
      (uses_step ''actions/deploy-pages@v4'')
        \<lparr>step_name := Some ''Deploy to GitHub Pages'', step_id := Some ''deployment''\<rparr> ]"

definition deploy :: job where
  "deploy = \<lparr>job_id = ''deploy'', job_if = None, job_needs = [],
     job_environment = [(''name'', ''github-pages''),
       (''url'', ''${{ steps.deployment.outputs.page_url }}'')],
     runs_on = ''ubuntu-latest'', steps = deploy_steps\<rparr>"

definition pages_workflow :: workflow where
  "pages_workflow = \<lparr>wf_name = ''GitHub Pages Deploy'',
     wf_on = [OnPush [''master'']],
     wf_env = [(''BASE_URL'', ''/${{ github.event.repository.name }}'')],
     wf_permissions = [(''contents'', ''read''), (''pages'', ''write''), (''id-token'', ''write'')],
     wf_concurrency = Some \<lparr>group = ''pages'', cancel_in_progress = False\<rparr>,
     wf_jobs = [deploy]\<rparr>"

subsection \<open>Which events start the workflow\<close>

text \<open>
  The events the platform delivers. A push updates a branch or a tag; the other events
  stand for everything that is not a push.
\<close>

datatype git_ref = Branch string | Tag string

datatype event = Push git_ref | PullRequest string | WorkflowDispatch

text \<open>
  A branch filter is a list of glob patterns. A pattern without a glob character matches
  the branch of that very name and no other; \<open>glob_free\<close> recognises such a pattern, and
  \<open>pattern_matches\<close> is the matching of a glob-free pattern.
\<close>

definition glob_free :: "string \<Rightarrow> bool" where
  "glob_free p = list_all (\<lambda>c. c \<notin> set ''*?+[]!'') p"

definition pattern_matches :: "string \<Rightarrow> string \<Rightarrow> bool" where
  "pattern_matches p b = (p = b)"

fun trigger_patterns :: "trigger \<Rightarrow> string list" where
  "trigger_patterns (OnPush ps) = ps"

definition push_patterns :: "workflow \<Rightarrow> string list" where
  "push_patterns w = concat (map trigger_patterns (wf_on w))"

text \<open>
  A \<open>push\<close> trigger with a \<open>branches\<close> filter and no \<open>tags\<close> filter starts the workflow
  for a pushed branch that some pattern matches, and for no pushed tag.
\<close>

fun trigger_fires :: "trigger \<Rightarrow> event \<Rightarrow> bool" where
  "trigger_fires (OnPush ps) (Push (Branch b)) = list_ex (\<lambda>p. pattern_matches p b) ps"
| "trigger_fires (OnPush ps) (Push (Tag t)) = False"
| "trigger_fires (OnPush ps) (PullRequest b) = False"
| "trigger_fires (OnPush ps) WorkflowDispatch = False"

definition workflow_triggered :: "workflow \<Rightarrow> event \<Rightarrow> bool" where
  "workflow_triggered w ev = list_ex (\<lambda>t. trigger_fires t ev) (wf_on w)"

text \<open>
  A job with no \<open>if\<close> condition and no \<open>needs\<close> is part of every run of its workflow.
\<close>

definition job_triggered :: "workflow \<Rightarrow> string \<Rightarrow> event \<Rightarrow> bool" where
  "job_triggered w j ev =
     (workflow_triggered w ev \<and>
      list_ex (\<lambda>x. job_id x = j \<and> job_if x = None \<and> job_needs x = []) (wf_jobs w))"

subsection \<open>Runs of one concurrency group\<close>

text \<open>
  The platform's rule for a workflow-level \<open>concurrency\<close> key. The runs of the workflow
  are kept in arrival order with their status. When a run is queued and the workflow has
  no concurrency group it starts at once. With a group, a queued run cancels the run of
  the group that is still pending; it cancels the run in progress only under
  \<open>cancel-in-progress: true\<close>, and otherwise waits as the pending run while a run is in
  progress. When the run in progress finishes, the pending run starts. The group of this
  workflow is a constant string, so all its runs are in the one group.
\<close>

datatype run_status = Pending | Running | Completed | Cancelled

type_synonym runs = "(nat \<times> run_status) list"

datatype sched_event = Queued nat | Finished nat

definition running :: "runs \<Rightarrow> nat list" where
  "running rs = map fst (filter (\<lambda>x. snd x = Running) rs)"

definition cancel_where :: "(run_status \<Rightarrow> bool) \<Rightarrow> runs \<Rightarrow> runs" where
  "cancel_where P rs = map (\<lambda>x. if P (snd x) then (fst x, Cancelled) else x) rs"

fun queue_run :: "concurrency option \<Rightarrow> nat \<Rightarrow> runs \<Rightarrow> runs" where
  "queue_run None r rs = rs @ [(r, Running)]"
| "queue_run (Some c) r rs =
     (if cancel_in_progress c
      then cancel_where (\<lambda>s. s = Pending \<or> s = Running) rs @ [(r, Running)]
      else if running rs = [] then cancel_where (\<lambda>s. s = Pending) rs @ [(r, Running)]
      else cancel_where (\<lambda>s. s = Pending) rs @ [(r, Pending)])"

fun promote :: "runs \<Rightarrow> runs" where
  "promote [] = []"
| "promote (x # xs) = (if snd x = Pending then (fst x, Running) # xs else x # promote xs)"

definition finish_run :: "nat \<Rightarrow> runs \<Rightarrow> runs" where
  "finish_run r rs =
     (let rs' = map (\<lambda>x. if fst x = r \<and> snd x = Running then (r, Completed) else x) rs
      in if running rs' = [] then promote rs' else rs')"

fun sched_step :: "concurrency option \<Rightarrow> sched_event \<Rightarrow> runs \<Rightarrow> runs" where
  "sched_step c (Queued r) rs = queue_run c r rs"
| "sched_step c (Finished r) rs = finish_run r rs"

definition schedule :: "concurrency option \<Rightarrow> sched_event list \<Rightarrow> runs" where
  "schedule c evs = fold (sched_step c) evs []"

section \<open>The notebooks\<close>

subsection \<open>Abstract syntax of the notebooks' code\<close>

text \<open>
  The code cells are Python. An expression is a name, a literal, an attribute access, a
  call (whose keyword arguments are \<open>Kw\<close> entries of the argument list), a subscript, a
  list, tuple or dictionary display (a dictionary's entries are \<open>KV\<close>), or a binary
  operation or comparison, written with its operator. A floating-point literal is kept as
  the text the source writes.
\<close>

datatype expr =
    Name string
  | Str string
  | Num int
  | Flt string
  | BoolE bool
  | Attr expr string
  | Call expr "expr list"
  | Kw string expr
  | Subscript expr expr
  | ListE "expr list"
  | TupleE "expr list"
  | DictE "expr list"
  | KV expr expr
  | BinOp expr string expr

text \<open>
  Statements. \<open>Import m a\<close> is \<open>import m as a\<close> (\<open>a\<close> is the bound name), and
  \<open>FromImport m ns\<close> is \<open>from m import n as a\<close> for each \<open>(n, a)\<close> of \<open>ns\<close>.
  \<open>Try b h\<close> is \<open>try: b except: h\<close>, and \<open>LineMagic\<close> is a line of the notebook
  shell (\<open>%env\<close>). The notebooks use neither \<open>While\<close>, \<open>Try\<close> nor \<open>Raise\<close>; the
  constructors are there so that their absence can be stated.
\<close>

datatype stmt =
    Import string string
  | FromImport string "(string \<times> string) list"
  | Assign expr expr
  | ExprS expr
  | For expr expr "stmt list"
  | While expr "stmt list"
  | If expr "stmt list" "stmt list"
  | With expr "stmt list"
  | Try "stmt list" "stmt list"
  | FunDef string "string list" "stmt list"
  | Return expr
  | Raise expr
  | LineMagic string string

text \<open>
  A code cell is a list of statements; a cell that starts with a cell magic
  (\<open>%%capture --no-stdout\<close>) is the magic, its arguments and the statements under it.
  A notebook is the list of its code cells, in the order of the file.
\<close>

datatype cell = CodeCell "stmt list" | MagicCell string string "stmt list"

type_synonym notebook = "cell list"

subsection \<open>The LSTM notebook\<close>

definition lstm_load :: cell where
  "lstm_load = CodeCell
    [ LineMagic ''env'' ''PYTHONUNBUFFERED=1'',
      Import ''kagglehub'' ''kagglehub'',
      Assign (Name ''df'')
        (Call (Attr (Name ''kagglehub'') ''dataset_load'')
          [ Attr (Attr (Name ''kagglehub'') ''KaggleDatasetAdapter'') ''PANDAS'',
            Str ''jp797498e/twitter-entity-sentiment-analysis'',
            Str ''twitter_training.csv'',
            Kw ''pandas_kwargs'' (DictE [KV (Str ''encoding'') (Str ''ISO-8859-1'')]) ]),
      Assign (Name ''df'')
        (Subscript (Name ''df'')
          (Subscript (Attr (Name ''df'') ''columns'') (ListE [Num 2, Num 3]))),
      Assign (Attr (Name ''df'') ''columns'') (ListE [Str ''sentiment'', Str ''text'']),
      Assign (Subscript (Name ''df'') (Str ''text''))
        (Call (Attr (Subscript (Name ''df'') (Str ''text'')) ''astype'') [Name ''str'']),
      Assign (Subscript (Name ''df'') (Str ''sentiment''))
        (Call (Attr (Subscript (Name ''df'') (Str ''sentiment'')) ''astype'') [Name ''str'']),
      Assign (Name ''df'') (Call (Attr (Name ''df'') ''dropna'') []),
      Assign (Name ''df'')
        (Subscript (Attr (Name ''df'') ''loc'')
          (BinOp (Subscript (Name ''df'') (Str ''sentiment'')) ''!='' (Str ''Irrelevant''))),
      ExprS (Call (Name ''display'') [Name ''df'']) ]"

definition lstm_split :: cell where
  "lstm_split = CodeCell
    [ FromImport ''sklearn.model_selection'' [(''train_test_split'', ''train_test_split'')],
      Assign (TupleE [Name ''train'', Name ''test''])
        (Call (Name ''train_test_split'') [Name ''df'', Kw ''test_size'' (Flt ''0.2'')]),
      Assign (Name ''x_train'') (Subscript (Name ''train'') (Str ''text'')),
      Assign (Name ''y_train'') (Subscript (Name ''train'') (Str ''sentiment'')),
      Assign (Name ''x_test'') (Subscript (Name ''test'') (Str ''text'')),
      Assign (Name ''y_test'') (Subscript (Name ''test'') (Str ''sentiment'')) ]"

definition lstm_labels :: cell where
  "lstm_labels = CodeCell
    [ Import ''pandas'' ''pd'',
      FromImport ''sklearn.preprocessing'' [(''LabelBinarizer'', ''LabelBinarizer'')],
      Assign (Name ''encoder'') (Call (Name ''LabelBinarizer'') []),
      ExprS (Call (Attr (Name ''encoder'') ''fit'') [Subscript (Name ''df'') (Str ''sentiment'')]),
      Assign (Name ''y_train_encoded'')
        (Call (Attr (Name ''pd'') ''DataFrame'')
          [Call (Attr (Name ''encoder'') ''fit_transform'') [Name ''y_train'']]),
      Assign (Name ''y_test_encoded'')
        (Call (Attr (Name ''pd'') ''DataFrame'')
          [Call (Attr (Name ''encoder'') ''transform'') [Name ''y_test'']]) ]"

definition lstm_tokenize :: cell where
  "lstm_tokenize = CodeCell
    [ FromImport ''tensorflow.keras.preprocessing.text'' [(''Tokenizer'', ''Tokenizer'')],
      Assign (Name ''tokenizer'') (Call (Name ''Tokenizer'') []),
      ExprS (Call (Attr (Name ''tokenizer'') ''fit_on_texts'')
        [Subscript (Name ''df'') (Str ''text'')]),
      ExprS (Call (Name ''display'')
        [Call (Attr (Name ''tokenizer'') ''texts_to_sequences'') [ListE [Str ''Hello World'']]]) ]"

definition lstm_pad :: cell where
  "lstm_pad = CodeCell
    [ Assign (Name ''maxlen'') (Num 96),
      FromImport ''tensorflow.keras.utils'' [(''pad_sequences'', ''pad_sequences'')],
      Assign (Name ''x_train'')
        (Call (Name ''pad_sequences'')
          [ Call (Attr (Name ''tokenizer'') ''texts_to_sequences'') [Name ''x_train''],
            Kw ''maxlen'' (Name ''maxlen'') ]),
      Assign (Name ''x_test'')
        (Call (Name ''pad_sequences'')
          [ Call (Attr (Name ''tokenizer'') ''texts_to_sequences'') [Name ''x_test''],
            Kw ''maxlen'' (Name ''maxlen'') ]),
      ExprS (Call (Name ''display'') [Name ''x_train'']) ]"

definition lstm_embedding :: cell where
  "lstm_embedding = CodeCell
    [ Assign (Name ''embedding_matrix_shape'')
        (TupleE
          [ BinOp (Call (Name ''len'') [Attr (Name ''tokenizer'') ''word_index'']) ''+'' (Num 1),
            Attr (Name ''wv'') ''vector_size'' ]),
      Assign (Name ''embedding_matrix'')
        (Call (Attr (Name ''np'') ''zeros'') [Kw ''shape'' (Name ''embedding_matrix_shape'')]),
      For (TupleE [Name ''word'', Name ''index''])
        (Call (Attr (Attr (Name ''tokenizer'') ''word_index'') ''items'') [])
        [ If (BinOp (Name ''word'') ''in'' (Name ''wv''))
            [ Assign (Subscript (Name ''embedding_matrix'') (Name ''index''))
                (Call (Attr (Name ''wv'') ''get_vector'') [Name ''word'']) ]
            [ Assign (Subscript (Name ''embedding_matrix'') (Name ''index''))
                (Call (Attr (Name ''np'') ''zeros'') [Attr (Name ''wv'') ''vector_size'']) ] ] ]"

definition lstm_model :: cell where
  "lstm_model = CodeCell
    [ FromImport ''tensorflow.keras'' [(''layers'', ''layers''), (''Sequential'', ''Sequential'')],
      Assign (Name ''num_classes'') (Call (Name ''len'') [Attr (Name ''encoder'') ''classes_'']),
      Assign (Name ''model'')
        (Call (Name ''Sequential'')
          [ ListE
            [ Call (Attr (Name ''layers'') ''Embedding'')
                [ Kw ''weights'' (ListE [Name ''embedding_matrix'']),
                  Kw ''input_dim'' (Subscript (Name ''embedding_matrix_shape'') (Num 0)),
                  Kw ''output_dim'' (Subscript (Name ''embedding_matrix_shape'') (Num 1)),
                  Kw ''trainable'' (BoolE True),
                  Kw ''mask_zero'' (BoolE True) ],
              Call (Attr (Name ''layers'') ''LSTM'')
                [Num 128, Kw ''dropout'' (Flt ''0.2''), Kw ''recurrent_dropout'' (Flt ''0.2'')],
              Call (Attr (Name ''layers'') ''Dropout'') [Flt ''0.2''],
              Call (Attr (Name ''layers'') ''Dense'')
                [Name ''num_classes'', Kw ''activation'' (Str ''softmax'')] ] ]) ]"

definition lstm_earlystop :: cell where
  "lstm_earlystop = CodeCell
    [ FromImport ''tensorflow.keras.callbacks'' [(''EarlyStopping'', ''EarlyStopping'')],
      Assign (Name ''earlystop'')
        (Call (Name ''EarlyStopping'')
          [ Kw ''monitor'' (Str ''val_accuracy''), Kw ''patience'' (Num 5),
            Kw ''restore_best_weights'' (BoolE True) ]) ]"

definition lstm_optimizer :: cell where
  "lstm_optimizer = CodeCell
    [ FromImport ''tensorflow.keras.optimizers'' [(''Adam'', ''Adam'')],
      Assign (Name ''optimizer'') (Call (Name ''Adam'') [Kw ''learning_rate'' (Flt ''0.0001'')]) ]"

definition lstm_fit :: cell where
  "lstm_fit = CodeCell
    [ ExprS (Call (Attr (Name ''model'') ''compile'')
        [ Kw ''optimizer'' (Name ''optimizer''),
          Kw ''loss'' (Str ''categorical_crossentropy''),
          Kw ''metrics'' (ListE [Str ''accuracy'']) ]),
      ExprS (Call (Attr (Name ''model'') ''fit'')
        [ Name ''x_train'', Name ''y_train_encoded'',
          Kw ''epochs'' (Num 35), Kw ''batch_size'' (Num 128),
          Kw ''validation_split'' (Flt ''0.1''),
          Kw ''callbacks'' (ListE [Name ''earlystop'']) ]) ]"

definition lstm_report :: cell where
  "lstm_report = CodeCell
    [ FromImport ''sklearn.metrics'' [(''classification_report'', ''classification_report'')],
      Assign (Name ''y_pred_probs'')
        (Call (Attr (Name ''model'') ''predict'') [Name ''x_test'', Kw ''verbose'' (BoolE False)]),
      Assign (Name ''y_pred_labels'')
        (Call (Attr (Name ''np'') ''argmax'') [Name ''y_pred_probs'', Kw ''axis'' (Num 1)]),
      Assign (Name ''y_true_labels'')
        (Call (Attr (Name ''np'') ''argmax'')
          [Call (Attr (Name ''y_test_encoded'') ''to_numpy'') [], Kw ''axis'' (Num 1)]),
      ExprS (Call (Name ''print'')
        [ Call (Name ''classification_report'')
            [ Name ''y_true_labels'', Name ''y_pred_labels'',
              Kw ''target_names'' (Attr (Name ''encoder'') ''classes_'') ] ]) ]"

definition lstm_nb :: notebook where
  "lstm_nb =
    [ lstm_load, lstm_split, lstm_labels, lstm_tokenize, lstm_pad, lstm_embedding,
      lstm_model, lstm_earlystop, lstm_optimizer, lstm_fit, lstm_report ]"

subsection \<open>The logistic-regression notebook\<close>

definition logreg_load :: cell where
  "logreg_load = CodeCell
    [ FromImport ''datasets'' [(''load_dataset'', ''load_dataset'')],
      Assign (Name ''ds'')
        (Call (Name ''load_dataset'') [Str ''stanfordnlp/imdb'', Kw ''split'' (Str ''train+test'')]),
      Assign (TupleE [Name ''train'', Name ''test''])
        (Call
          (Attr
            (Call (Attr (Name ''ds'') ''train_test_split'')
              [Kw ''test_size'' (Flt ''0.2''), Kw ''seed'' (Num 0)])
            ''values'')
          []),
      ExprS (Call (Name ''display'') [Call (Attr (Name ''train'') ''to_pandas'') []]),
      Assign (Name ''x_train'') (Subscript (Name ''train'') (Str ''text'')),
      Assign (Name ''y_train'') (Subscript (Name ''train'') (Str ''label'')),
      Assign (Name ''x_test'') (Subscript (Name ''test'') (Str ''text'')),
      Assign (Name ''y_test'') (Subscript (Name ''test'') (Str ''label'')) ]"

definition logreg_vectorizer :: cell where
  "logreg_vectorizer = CodeCell
    [ FromImport ''sklearn.feature_extraction.text'' [(''CountVectorizer'', ''CountVectorizer'')],
      Assign (Name ''vectorizer'') (Call (Name ''CountVectorizer'') []) ]"

definition logreg_example :: cell where
  "logreg_example = CodeCell
    [ Assign (Name ''example_vector'')
        (Call
          (Attr
            (Call (Attr (Name ''vectorizer'') ''fit_transform'')
              [ListE [Str ''Hello World! Hello!'', Str ''Bye World'']])
            ''toarray'')
          []),
      ExprS (Call (Name ''display'')
        [ Call (Attr (Name ''vectorizer'') ''get_feature_names_out'') [],
          Name ''example_vector'' ]) ]"

definition logreg_scaler :: cell where
  "logreg_scaler = CodeCell
    [ FromImport ''sklearn.preprocessing'' [(''StandardScaler'', ''StandardScaler'')],
      Assign (Name ''scaler'') (Call (Name ''StandardScaler'') [Kw ''with_mean'' (BoolE False)]) ]"

definition logreg_pipeline :: cell where
  "logreg_pipeline = CodeCell
    [ FromImport ''sklearn.pipeline'' [(''Pipeline'', ''Pipeline'')],
      FromImport ''sklearn.linear_model'' [(''LogisticRegression'', ''LogisticRegression'')],
      Assign (Name ''classifier'') (Call (Name ''LogisticRegression'') []),
      Assign (Name ''pipeline'')
        (Call (Name ''Pipeline'')
          [ ListE
            [ TupleE [Str ''vectorizer'', Name ''vectorizer''],
              TupleE [Str ''scaler'', Name ''scaler''],
              TupleE [Str ''classifier'', Name ''classifier''] ] ]) ]"

definition logreg_grid :: cell where
  "logreg_grid = CodeCell
    [ Assign (Name ''param_grid'')
        (DictE
          [ KV (Str ''classifier__C'') (ListE [Flt ''0.1'', Num 1, Num 10]),
            KV (Str ''vectorizer__ngram_range'')
              (ListE [TupleE [Num 1, Num 1], TupleE [Num 1, Num 2]]),
            KV (Str ''vectorizer__max_df'')
              (ListE [Flt ''0.85'', Flt ''0.90'', Flt ''0.95'', Flt ''1.0'']),
            KV (Str ''vectorizer__min_df'') (ListE [Num 1, Num 2, Num 3, Num 5]) ]) ]"

definition logreg_search :: cell where
  "logreg_search = MagicCell ''capture'' ''--no-stdout''
    [ FromImport ''joblib'' [(''parallel_backend'', ''parallel_backend'')],
      FromImport ''sklearn.model_selection'' [(''RandomizedSearchCV'', ''RandomizedSearchCV'')],
      Assign (Name ''cv'')
        (Call (Name ''RandomizedSearchCV'')
          [ Name ''pipeline'', Name ''param_grid'', Kw ''random_state'' (Num 0),
            Kw ''n_jobs'' (Num (- 1)), Kw ''verbose'' (Num 3) ]),
      ExprS (Call (Attr (Name ''cv'') ''fit'') [Name ''x_train'', Name ''y_train'']) ]"

definition logreg_report :: cell where
  "logreg_report = CodeCell
    [ FromImport ''sklearn.metrics'' [(''classification_report'', ''classification_report'')],
      Assign (Name ''prediction'')
        (Call (Attr (Attr (Name ''cv'') ''best_estimator_'') ''predict'') [Name ''x_test'']),
      ExprS (Call (Name ''print'')
        [ Call (Name ''classification_report'')
            [ Name ''y_test'', Name ''prediction'',
              Kw ''target_names''
                (Attr (Subscript (Attr (Name ''ds'') ''features'') (Str ''label'')) ''names'') ] ]) ]"

definition logreg_best :: cell where
  "logreg_best = CodeCell
    [ FromImport ''pandas'' [(''DataFrame'', ''DataFrame'')],
      Assign (Name ''best_params_table'')
        (Call (Attr (Name ''DataFrame'') ''from_dict'')
          [Call (Attr (Attr (Name ''cv'') ''best_params_'') ''items'') []]),
      ExprS (Call (Name ''display'')
        [ Call
            (Attr
              (Call (Attr (Attr (Name ''best_params_table'') ''style'') ''hide'')
                [Kw ''axis'' (Num 0)])
              ''hide'')
            [Kw ''axis'' (Num 1)] ]) ]"

definition logreg_nb :: notebook where
  "logreg_nb =
    [ logreg_load, logreg_vectorizer, logreg_example, logreg_scaler, logreg_pipeline,
      logreg_grid, logreg_search, logreg_report, logreg_best ]"

subsection \<open>The transformer notebook\<close>

definition roberta_load :: cell where
  "roberta_load = CodeCell
    [ FromImport ''datasets'' [(''load_dataset'', ''load_dataset'')],
      Import ''numpy'' ''np'',
      Assign (TupleE [Name ''train'', Name ''test''])
        (Call (Name ''load_dataset'')
          [Str ''stanfordnlp/imdb'', Kw ''split'' (ListE [Str ''train'', Str ''test''])]),
      Assign (Name ''class_names'')
        (Attr (Subscript (Attr (Name ''train'') ''features'') (Str ''label'')) ''names''),
      Assign (Name ''x_train'')
        (Call (Attr (Name ''np'') ''array'') [Subscript (Name ''train'') (Str ''text'')]),
      Assign (Name ''y_train'')
        (Call (Attr (Name ''np'') ''array'') [Subscript (Name ''train'') (Str ''label'')]),
      Assign (Name ''x_test'')
        (Call (Attr (Name ''np'') ''array'') [Subscript (Name ''test'') (Str ''text'')]),
      Assign (Name ''y_test'')
        (Call (Attr (Name ''np'') ''array'') [Subscript (Name ''test'') (Str ''label'')]) ]"

definition roberta_tokenizer :: cell where
  "roberta_tokenizer = CodeCell
    [ FromImport ''transformers'' [(''RobertaTokenizerFast'', ''RobertaTokenizerFast'')],
      Assign (Name ''tokenizer'')
        (Call (Attr (Name ''RobertaTokenizerFast'') ''from_pretrained'')
          [Str ''distilbert/distilroberta-base'']),
      FunDef ''tokenize'' [''text'']
        [ Assign (Name ''tokens'')
            (Call (Name ''tokenizer'')
              [ Name ''text'', Kw ''return_tensors'' (Str ''np''), Kw ''max_length'' (Num 284),
                Kw ''truncation'' (BoolE True), Kw ''padding'' (BoolE True) ]),
          Return (Call (Name ''dict'') [Name ''tokens'']) ] ]"

definition roberta_tokenize :: cell where
  "roberta_tokenize = CodeCell
    [ Assign (Name ''x_train'')
        (Call (Name ''tokenize'') [Call (Attr (Name ''x_train'') ''tolist'') []]),
      Assign (Name ''x_test'')
        (Call (Name ''tokenize'') [Call (Attr (Name ''x_test'') ''tolist'') []]) ]"

definition roberta_model :: cell where
  "roberta_model = CodeCell
    [ LineMagic ''env'' ''TF_USE_LEGACY_KERAS=1'',
      FromImport ''transformers''
        [(''TFRobertaForSequenceClassification'', ''RobertaForSequenceClassification'')],
      FromImport ''transformers'' [(''logging'', ''logging''), (''set_seed'', ''set_seed'')],
      ExprS (Call (Attr (Name ''logging'') ''set_verbosity_error'') []),
      ExprS (Call (Name ''set_seed'') [Num 0]),
      Assign (Name ''model'')
        (Call (Attr (Name ''RobertaForSequenceClassification'') ''from_pretrained'')
          [ Str ''distilbert/distilroberta-base'',
            Kw ''num_labels'' (Call (Name ''len'') [Name ''class_names'']) ]) ]"

definition roberta_optimizer :: cell where
  "roberta_optimizer = CodeCell
    [ FromImport ''transformers'' [(''create_optimizer'', ''create_optimizer'')],
      Assign (Name ''epochs'') (Num 3),
      Assign (Name ''validation_split'') (Flt ''0.2''),
      Assign (Name ''batch_size'') (Num 32),
      Assign (Name ''num_train_steps'')
        (BinOp (Name ''epochs'') ''*''
          (BinOp
            (BinOp (Call (Name ''len'') [Subscript (Name ''x_train'') (Str ''input_ids'')]) ''*''
              (BinOp (Num 1) ''-'' (Name ''validation_split'')))
            ''//'' (Name ''batch_size''))),
      Assign (TupleE [Name ''optimizer'', Name ''_''])
        (Call (Name ''create_optimizer'')
          [ Kw ''init_lr'' (Flt ''0.00002''),
            Kw ''weight_decay_rate'' (Flt ''0.01''),
            Kw ''num_warmup_steps''
              (Call (Name ''int'') [BinOp (Name ''num_train_steps'') ''*'' (Flt ''0.1'')]),
            Kw ''num_train_steps'' (Name ''num_train_steps'') ]) ]"

definition roberta_dropout :: cell where
  "roberta_dropout = CodeCell
    [ Assign (Attr (Attr (Name ''model'') ''config'') ''attention_probs_dropout_prob'')
        (Flt ''0.3''),
      Assign (Attr (Attr (Name ''model'') ''config'') ''hidden_dropout_prob'') (Flt ''0.3'') ]"

definition roberta_fit :: cell where
  "roberta_fit = CodeCell
    [ FromImport ''tensorflow'' [(''device'', ''device'')],
      With (Call (Name ''device'') [Str ''/GPU''])
        [ ExprS (Call (Attr (Name ''model'') ''compile'')
            [Kw ''optimizer'' (Name ''optimizer''), Kw ''metrics'' (ListE [Str ''accuracy''])]),
          Assign (Name ''history'')
            (Call (Attr (Name ''model'') ''fit'')
              [ Name ''x_train'', Name ''y_train'', Kw ''epochs'' (Name ''epochs''),
                Kw ''batch_size'' (Name ''batch_size''),
                Kw ''validation_split'' (Name ''validation_split'') ]) ] ]"

definition roberta_report :: cell where
  "roberta_report = CodeCell
    [ FromImport ''sklearn.metrics'' [(''classification_report'', ''classification_report'')],
      With (Call (Name ''device'') [Str ''/GPU''])
        [ Assign (Name ''y_pred_values'')
            (Attr
              (Call (Attr (Name ''model'') ''predict'') [Name ''x_test'', Kw ''verbose'' (BoolE True)])
              ''logits''),
          Assign (Name ''y_pred_labels'')
            (Call (Attr (Name ''np'') ''argmax'') [Name ''y_pred_values'', Kw ''axis'' (Num 1)]),
          ExprS (Call (Name ''print'')
            [ Call (Name ''classification_report'')
                [ Name ''y_test'', Name ''y_pred_labels'',
                  Kw ''target_names'' (Name ''class_names'') ] ]) ] ]"

definition roberta_plot :: cell where
  "roberta_plot = CodeCell
    [ Import ''matplotlib.pyplot'' ''plt'',
      ExprS (Call (Attr (Name ''plt'') ''figure'') [Kw ''figsize'' (TupleE [Flt ''4.5'', Num 3])]),
      ExprS (Call (Attr (Name ''plt'') ''plot'')
        [ Subscript (Attr (Name ''history'') ''history'') (Str ''accuracy''),
          Kw ''label'' (Str ''train'') ]),
      ExprS (Call (Attr (Name ''plt'') ''plot'')
        [ Subscript (Attr (Name ''history'') ''history'') (Str ''val_accuracy''),
          Kw ''label'' (Str ''validation'') ]),
      ExprS (Call (Attr (Name ''plt'') ''ylabel'') [Str ''accuracy'']),
      ExprS (Call (Attr (Name ''plt'') ''xlabel'') [Str ''epoch'']),
      ExprS (Call (Attr (Name ''plt'') ''legend'') [Kw ''loc'' (Str ''lower right'')]),
      ExprS (Call (Attr (Name ''plt'') ''show'') []) ]"

definition roberta_nb :: notebook where
  "roberta_nb =
    [ roberta_load, roberta_tokenizer, roberta_tokenize, roberta_model, roberta_optimizer,
      roberta_dropout, roberta_fit, roberta_report, roberta_plot ]"

subsection \<open>Reading the syntax\<close>

text \<open>
  \<open>sub_exprs\<close> lists an expression and everything inside it, and \<open>sub_stmts\<close> a statement
  and the statements of its blocks, both in source order.
\<close>

fun sub_exprs :: "expr \<Rightarrow> expr list" where
  "sub_exprs (Attr e a) = Attr e a # sub_exprs e"
| "sub_exprs (Call f as) = Call f as # sub_exprs f @ concat (map sub_exprs as)"
| "sub_exprs (Kw k e) = Kw k e # sub_exprs e"
| "sub_exprs (Subscript e i) = Subscript e i # sub_exprs e @ sub_exprs i"
| "sub_exprs (ListE es) = ListE es # concat (map sub_exprs es)"
| "sub_exprs (TupleE es) = TupleE es # concat (map sub_exprs es)"
| "sub_exprs (DictE es) = DictE es # concat (map sub_exprs es)"
| "sub_exprs (KV k v) = KV k v # sub_exprs k @ sub_exprs v"
| "sub_exprs (BinOp a oper b) = BinOp a oper b # sub_exprs a @ sub_exprs b"
| "sub_exprs e = [e]"

fun sub_stmts :: "stmt \<Rightarrow> stmt list" where
  "sub_stmts (For t i b) = For t i b # concat (map sub_stmts b)"
| "sub_stmts (While c b) = While c b # concat (map sub_stmts b)"
| "sub_stmts (If c a b) = If c a b # concat (map sub_stmts a) @ concat (map sub_stmts b)"
| "sub_stmts (With c b) = With c b # concat (map sub_stmts b)"
| "sub_stmts (Try b h) = Try b h # concat (map sub_stmts b) @ concat (map sub_stmts h)"
| "sub_stmts (FunDef f ps b) = FunDef f ps b # concat (map sub_stmts b)"
| "sub_stmts s = [s]"

fun cell_stmts :: "cell \<Rightarrow> stmt list" where
  "cell_stmts (CodeCell ss) = ss"
| "cell_stmts (MagicCell m a ss) = ss"

definition nb_stmts :: "notebook \<Rightarrow> stmt list" where
  "nb_stmts nb = concat (map cell_stmts nb)"

definition all_stmts :: "notebook \<Rightarrow> stmt list" where
  "all_stmts nb = concat (map sub_stmts (nb_stmts nb))"

text \<open>
  The expressions a statement evaluates itself (those of the statements in its blocks are
  not among them): for an assignment the value, then the target.
\<close>

fun stmt_exprs :: "stmt \<Rightarrow> expr list" where
  "stmt_exprs (Assign t e) = [e, t]"
| "stmt_exprs (ExprS e) = [e]"
| "stmt_exprs (For t i b) = [i, t]"
| "stmt_exprs (While c b) = [c]"
| "stmt_exprs (If c a b) = [c]"
| "stmt_exprs (With c b) = [c]"
| "stmt_exprs (Return e) = [e]"
| "stmt_exprs (Raise e) = [e]"
| "stmt_exprs s = []"

definition stmt_sub_exprs :: "stmt \<Rightarrow> expr list" where
  "stmt_sub_exprs s = concat (map sub_exprs (stmt_exprs s))"

definition all_exprs :: "notebook \<Rightarrow> expr list" where
  "all_exprs nb = concat (map stmt_sub_exprs (all_stmts nb))"

fun is_call :: "expr \<Rightarrow> bool" where
  "is_call (Call f as) = True"
| "is_call e = False"

definition all_calls :: "notebook \<Rightarrow> expr list" where
  "all_calls nb = filter is_call (all_exprs nb)"

text \<open>
  The dotted path of a name or attribute chain (\<open>layers.LSTM\<close> is \<open>[layers, LSTM]\<close>;
  an expression that is not such a chain has none), the path a call is made through, and a
  call's arguments.
\<close>

fun path :: "expr \<Rightarrow> string list option" where
  "path (Name x) = Some [x]"
| "path (Attr e a) = map_option (\<lambda>p. p @ [a]) (path e)"
| "path e = None"

fun callee :: "expr \<Rightarrow> string list option" where
  "callee (Call f as) = path f"
| "callee e = None"

fun call_args :: "expr \<Rightarrow> expr list" where
  "call_args (Call f as) = as"
| "call_args e = []"

fun is_kw :: "expr \<Rightarrow> bool" where
  "is_kw (Kw k e) = True"
| "is_kw e = False"

definition positional :: "expr \<Rightarrow> expr list" where
  "positional c = filter (\<lambda>a. \<not> is_kw a) (call_args c)"

fun kw_lookup :: "string \<Rightarrow> expr list \<Rightarrow> expr option" where
  "kw_lookup k [] = None"
| "kw_lookup k (Kw k' e # as) = (if k' = k then Some e else kw_lookup k as)"
| "kw_lookup k (a # as) = kw_lookup k as"

definition kwarg :: "string \<Rightarrow> expr \<Rightarrow> expr option" where
  "kwarg k c = kw_lookup k (call_args c)"

definition calls_to :: "notebook \<Rightarrow> string list \<Rightarrow> expr list" where
  "calls_to nb p = filter (\<lambda>c. callee c = Some p) (all_calls nb)"

text \<open>
  The values a notebook assigns to a variable or attribute path by a plain assignment
  \<open>x = e\<close>, in order; the statements that contain a call through a given path; and the
  module a name is imported from.
\<close>

fun assigns :: "string list \<Rightarrow> stmt \<Rightarrow> expr list" where
  "assigns p (Assign t e) = (if path t = Some p then [e] else [])"
| "assigns p s = []"

definition assigned :: "notebook \<Rightarrow> string list \<Rightarrow> expr list" where
  "assigned nb p = concat (map (assigns p) (all_stmts nb))"

definition calls_in_stmt :: "string list \<Rightarrow> stmt \<Rightarrow> bool" where
  "calls_in_stmt p s = list_ex (\<lambda>c. callee c = Some p) (stmt_sub_exprs s)"

fun imports_name :: "string \<Rightarrow> stmt \<Rightarrow> string list" where
  "imports_name n (Import m a) = (if a = n then [m] else [])"
| "imports_name n (FromImport m ns) = map (\<lambda>x. m @ ''.'' @ fst x) (filter (\<lambda>x. snd x = n) ns)"
| "imports_name n s = []"

definition imported :: "notebook \<Rightarrow> string \<Rightarrow> string list" where
  "imported nb n = concat (map (imports_name n) (all_stmts nb))"

text \<open>The position of the first element with a property (the length, if there is none).\<close>

definition first_pos :: "('a \<Rightarrow> bool) \<Rightarrow> 'a list \<Rightarrow> nat" where
  "first_pos P xs = length (takeWhile (\<lambda>x. \<not> P x) xs)"

subsection \<open>What the notebooks build\<close>

text \<open>
  The list a constructor call is given as its one positional argument (the layers of
  \<open>Sequential([...])\<close>, the stages of \<open>Pipeline([...])\<close>).
\<close>

definition list_arg :: "expr \<Rightarrow> expr list" where
  "list_arg c = (case positional c of [ListE es] \<Rightarrow> es | _ \<Rightarrow> [])"



definition assigned_at :: "notebook \<Rightarrow> string list \<Rightarrow> nat" where
  "assigned_at nb p = first_pos (\<lambda>s. assigns p s \<noteq> []) (all_stmts nb)"


definition called_at :: "notebook \<Rightarrow> string list \<Rightarrow> nat" where
  "called_at nb p = first_pos (calls_in_stmt p) (all_stmts nb)"

text \<open>
  A parameter grid is a dictionary from parameter names to lists of values; its size is
  the number of combinations, the product of the lists' lengths.
\<close>

fun grid_axis :: "expr \<Rightarrow> nat" where
  "grid_axis (KV k (ListE vs)) = length vs"
| "grid_axis e = 1"

fun grid_size :: "expr \<Rightarrow> nat" where
  "grid_size (DictE es) = prod_list (map grid_axis es)"
| "grid_size e = 0"

text \<open>
  The randomized search draws \<open>n_iter\<close> settings from the grid without replacement, and
  no more than the grid holds. \<open>n_iter\<close> is the call's keyword argument where it passes
  one, and the library's default otherwise; the default is not written in the
  repository and is the parameter \<open>d\<close> here. The search cell's stored output reports the
  ten candidates of the default.
\<close>

definition n_candidates :: "nat \<Rightarrow> expr \<Rightarrow> expr \<Rightarrow> nat" where
  "n_candidates d search grid =
     min (case kwarg ''n_iter'' search of Some (Num n) \<Rightarrow> nat n | _ \<Rightarrow> d) (grid_size grid)"

subsection \<open>Names and control flow\<close>

text \<open>
  The names an expression reads, the names an assignment target binds (\<open>a, b = e\<close> binds
  both), and the names a target reads (\<open>obj.field = e\<close> and \<open>obj[i] = e\<close> read \<open>obj\<close>).
\<close>

fun names_read :: "expr \<Rightarrow> string list" where
  "names_read (Name x) = [x]"
| "names_read (Attr e a) = names_read e"
| "names_read (Call f as) = names_read f @ concat (map names_read as)"
| "names_read (Kw k e) = names_read e"
| "names_read (Subscript e i) = names_read e @ names_read i"
| "names_read (ListE es) = concat (map names_read es)"
| "names_read (TupleE es) = concat (map names_read es)"
| "names_read (DictE es) = concat (map names_read es)"
| "names_read (KV k v) = names_read k @ names_read v"
| "names_read (BinOp a oper b) = names_read a @ names_read b"
| "names_read e = []"

fun target_binds :: "expr \<Rightarrow> string list" where
  "target_binds (Name x) = [x]"
| "target_binds (TupleE es) = concat (map target_binds es)"
| "target_binds (ListE es) = concat (map target_binds es)"
| "target_binds e = []"

fun target_reads :: "expr \<Rightarrow> string list" where
  "target_reads (Name x) = []"
| "target_reads (TupleE es) = concat (map target_reads es)"
| "target_reads (ListE es) = concat (map target_reads es)"
| "target_reads e = names_read e"

definition missing :: "string list \<Rightarrow> string list \<Rightarrow> string list" where
  "missing env ns = filter (\<lambda>n. n \<notin> set env) ns"

text \<open>
  The names a fresh interpreter of the notebook shell provides without an import: the
  Python builtins the notebooks call, and the shell's \<open>display\<close>.
\<close>

definition interpreter_names :: "string list" where
  "interpreter_names =
     [''len'', ''print'', ''int'', ''str'', ''dict'', ''list'', ''range'', ''display'']"

text \<open>
  Running the statements in order from a set of bound names: \<open>scan_block env ss\<close> is the
  list of the reads of a name that is not bound when it is read, in order, and the names
  bound after \<open>ss\<close>. An import binds its names and an assignment its targets, after the
  value is read. A name bound only inside a loop body, which may not run, or in one branch
  of a conditional, or in a block that an error may leave, is not counted as bound after
  it. A function body is scanned with the parameters bound, where the function is defined.
\<close>

fun scan_stmt :: "string list \<Rightarrow> stmt \<Rightarrow> string list \<times> string list"
  and scan_block :: "string list \<Rightarrow> stmt list \<Rightarrow> string list \<times> string list" where
  "scan_stmt env (Import m a) = ([], a # env)"
| "scan_stmt env (FromImport m ns) = ([], map snd ns @ env)"
| "scan_stmt env (Assign t e) =
     (missing env (names_read e @ target_reads t), target_binds t @ env)"
| "scan_stmt env (ExprS e) = (missing env (names_read e), env)"
| "scan_stmt env (For t i b) =
     (case scan_block (target_binds t @ env) b of
        (u, env') \<Rightarrow> (missing env (names_read i @ target_reads t) @ u, env))"
| "scan_stmt env (While c b) =
     (case scan_block env b of (u, env') \<Rightarrow> (missing env (names_read c) @ u, env))"
| "scan_stmt env (If c a b) =
     (case scan_block env a of
        (u1, env1) \<Rightarrow>
          (case scan_block env b of
             (u2, env2) \<Rightarrow>
               (missing env (names_read c) @ u1 @ u2, filter (\<lambda>n. n \<in> set env2) env1)))"
| "scan_stmt env (With c b) =
     (case scan_block env b of (u, env') \<Rightarrow> (missing env (names_read c) @ u, env'))"
| "scan_stmt env (Try b h) =
     (case scan_block env b of
        (u1, env1) \<Rightarrow> (case scan_block env h of (u2, env2) \<Rightarrow> (u1 @ u2, env)))"
| "scan_stmt env (FunDef f ps b) =
     (case scan_block (f # ps @ env) b of (u, env') \<Rightarrow> (u, f # env))"
| "scan_stmt env (Return e) = (missing env (names_read e), env)"
| "scan_stmt env (Raise e) = (missing env (names_read e), env)"
| "scan_stmt env (LineMagic m a) = ([], env)"
| "scan_block env [] = ([], env)"
| "scan_block env (s # ss) =
     (case scan_stmt env s of
        (u1, env1) \<Rightarrow> (case scan_block env1 ss of (u2, env2) \<Rightarrow> (u1 @ u2, env2)))"

definition undefined_names :: "notebook \<Rightarrow> string list" where
  "undefined_names nb = fst (scan_block interpreter_names (nb_stmts nb))"

text \<open>
  The statements that branch or repeat, and those that handle or raise an error.
\<close>

fun is_control :: "stmt \<Rightarrow> bool" where
  "is_control (For t i b) = True"
| "is_control (While c b) = True"
| "is_control (If c a b) = True"
| "is_control (Try b h) = True"
| "is_control s = False"

fun is_handler :: "stmt \<Rightarrow> bool" where
  "is_handler (Try b h) = True"
| "is_handler (Raise e) = True"
| "is_handler s = False"

fun is_while :: "stmt \<Rightarrow> bool" where
  "is_while (While c b) = True"
| "is_while s = False"

definition control_stmts :: "notebook \<Rightarrow> stmt list" where
  "control_stmts nb = filter is_control (all_stmts nb)"

text \<open>
  The names a notebook imports from a module of threads, processes or tasks, and the
  reads of a name anywhere in the notebook.
\<close>

definition concurrency_modules :: "string list" where
  "concurrency_modules =
     [''threading'', ''multiprocessing'', ''asyncio'', ''concurrent.futures'', ''joblib'']"

fun concurrency_import :: "stmt \<Rightarrow> string list" where
  "concurrency_import (Import m a) = (if m \<in> set concurrency_modules then [a] else [])"
| "concurrency_import (FromImport m ns) =
     (if m \<in> set concurrency_modules then map snd ns else [])"
| "concurrency_import s = []"

definition concurrency_names :: "notebook \<Rightarrow> string list" where
  "concurrency_names nb = concat (map concurrency_import (all_stmts nb))"

definition all_reads :: "notebook \<Rightarrow> string list" where
  "all_reads nb = concat (map names_read (concat (map stmt_exprs (all_stmts nb))))"

text \<open>The keyword of a statement that has a block; a statement without one has none.\<close>

fun keyword :: "stmt \<Rightarrow> string" where
  "keyword (For t i b) = ''for''"
| "keyword (While c b) = ''while''"
| "keyword (If c a b) = ''if''"
| "keyword (With c b) = ''with''"
| "keyword (Try b h) = ''try''"
| "keyword (FunDef f ps b) = ''def''"
| "keyword s = []"

subsection \<open>Running a notebook: where an error goes\<close>

text \<open>
  What a run of the cells does with an error. The values the library calls compute are
  not modelled: a statement without a block of its own (an import, an assignment, an
  expression, a definition, a shell line) either completes or raises some error, and a
  loop runs its body any number of times. A run is observed as the list of the statements
  that completed or raised, in order, and ends normally (\<open>None\<close>) or with the error that
  reached the top (\<open>Some e\<close>).

  The rules are Python's. An error raised in a block leaves the block. A \<open>try\<close> catches
  the error of its body and runs its handler instead, whose outcome is the statement's.
  A \<open>with\<close> statement passes the error of its body on, unless its context manager
  suppresses it; whether a manager does is the library's matter and is the parameter
  \<open>swallows\<close>. A cell magic runs the cell's statements under it and passes their error
  on or drops it, by what magic it is. The cells run in order, and the run stops at the
  first cell that ends with an error.
\<close>

datatype obs = Ran stmt | Threw stmt string | Dropped stmt string

fun is_simple :: "stmt \<Rightarrow> bool" where
  "is_simple (Import m a) = True"
| "is_simple (FromImport m ns) = True"
| "is_simple (Assign t e) = True"
| "is_simple (ExprS e) = True"
| "is_simple (FunDef f ps b) = True"
| "is_simple (Return e) = True"
| "is_simple (LineMagic m a) = True"
| "is_simple s = False"

text \<open>
  When an error is caught or suppressed, the observation of the statement that raised it
  is kept, marked as dropped: \<open>Threw s e\<close> is an error on its way to the top, and
  \<open>Dropped s e\<close> one that a wrapper around \<open>s\<close> kept from going further.
\<close>

fun drop_obs :: "obs \<Rightarrow> obs" where
  "drop_obs (Threw s e) = Dropped s e"
| "drop_obs x = x"

text \<open>
  The cell magic \<open>capture\<close> runs the statements of its cell through the shell's own
  cell runner, which reports an error and returns: the error does not leave the cell, and
  the run goes on with the next cell.
\<close>

definition magic_drops :: "string \<Rightarrow> bool" where
  "magic_drops m = (m = ''capture'')"

inductive exec_stmt :: "(expr \<Rightarrow> bool) \<Rightarrow> stmt \<Rightarrow> obs list \<Rightarrow> string option \<Rightarrow> bool"
  and exec_block :: "(expr \<Rightarrow> bool) \<Rightarrow> stmt list \<Rightarrow> obs list \<Rightarrow> string option \<Rightarrow> bool"
  for swallows :: "expr \<Rightarrow> bool" where
  simple_ok: "is_simple s \<Longrightarrow> exec_stmt swallows s [Ran s] None"
| simple_err: "is_simple s \<Longrightarrow> exec_stmt swallows s [Threw s e] (Some e)"
| raise: "exec_stmt swallows (Raise x) [Threw (Raise x) e] (Some e)"
| if_err: "exec_stmt swallows (If c a b) [Threw (If c a b) e] (Some e)"
| if_then: "exec_block swallows a tr r \<Longrightarrow> exec_stmt swallows (If c a b) tr r"
| if_else: "exec_block swallows b tr r \<Longrightarrow> exec_stmt swallows (If c a b) tr r"
| for_err: "exec_stmt swallows (For t i b) [Threw (For t i b) e] (Some e)"
| for_end: "exec_stmt swallows (For t i b) [] None"
| for_next: "exec_block swallows b tr1 None \<Longrightarrow> exec_stmt swallows (For t i b) tr2 r \<Longrightarrow>
     exec_stmt swallows (For t i b) (tr1 @ tr2) r"
| for_abort: "exec_block swallows b tr (Some e) \<Longrightarrow> exec_stmt swallows (For t i b) tr (Some e)"
| while_err: "exec_stmt swallows (While c b) [Threw (While c b) e] (Some e)"
| while_end: "exec_stmt swallows (While c b) [] None"
| while_next: "exec_block swallows b tr1 None \<Longrightarrow> exec_stmt swallows (While c b) tr2 r \<Longrightarrow>
     exec_stmt swallows (While c b) (tr1 @ tr2) r"
| while_abort: "exec_block swallows b tr (Some e) \<Longrightarrow> exec_stmt swallows (While c b) tr (Some e)"
| with_err: "exec_stmt swallows (With c b) [Threw (With c b) e] (Some e)"
| with_ok: "exec_block swallows b tr None \<Longrightarrow> exec_stmt swallows (With c b) tr None"
| with_pass: "exec_block swallows b tr (Some e) \<Longrightarrow> \<not> swallows c \<Longrightarrow>
     exec_stmt swallows (With c b) tr (Some e)"
| with_suppress: "exec_block swallows b tr (Some e) \<Longrightarrow> swallows c \<Longrightarrow>
     exec_stmt swallows (With c b) (map drop_obs tr) None"
| try_ok: "exec_block swallows b tr None \<Longrightarrow> exec_stmt swallows (Try b h) tr None"
| try_caught: "exec_block swallows b tr1 (Some e) \<Longrightarrow> exec_block swallows h tr2 r \<Longrightarrow>
     exec_stmt swallows (Try b h) (map drop_obs tr1 @ tr2) r"
| block_end: "exec_block swallows [] [] None"
| block_next: "exec_stmt swallows s tr1 None \<Longrightarrow> exec_block swallows ss tr2 r \<Longrightarrow>
     exec_block swallows (s # ss) (tr1 @ tr2) r"
| block_abort: "exec_stmt swallows s tr (Some e) \<Longrightarrow> exec_block swallows (s # ss) tr (Some e)"

inductive exec_cell :: "(expr \<Rightarrow> bool) \<Rightarrow> cell \<Rightarrow> obs list \<Rightarrow> string option \<Rightarrow> bool"
  for swallows :: "expr \<Rightarrow> bool" where
  code_cell: "exec_block swallows ss tr r \<Longrightarrow> exec_cell swallows (CodeCell ss) tr r"
| magic_ok: "exec_block swallows ss tr None \<Longrightarrow> exec_cell swallows (MagicCell m a ss) tr None"
| magic_pass: "exec_block swallows ss tr (Some e) \<Longrightarrow> \<not> magic_drops m \<Longrightarrow>
     exec_cell swallows (MagicCell m a ss) tr (Some e)"
| magic_drop: "exec_block swallows ss tr (Some e) \<Longrightarrow> magic_drops m \<Longrightarrow>
     exec_cell swallows (MagicCell m a ss) (map drop_obs tr) None"

inductive run :: "(expr \<Rightarrow> bool) \<Rightarrow> notebook \<Rightarrow> obs list \<Rightarrow> string option \<Rightarrow> bool"
  for swallows :: "expr \<Rightarrow> bool" where
  run_end: "run swallows [] [] None"
| run_next: "exec_cell swallows c tr1 None \<Longrightarrow> run swallows cs tr2 r \<Longrightarrow>
     run swallows (c # cs) (tr1 @ tr2) r"
| run_abort: "exec_cell swallows c tr (Some e) \<Longrightarrow> run swallows (c # cs) tr (Some e)"

text \<open>
  The error a run observed on its way to the top, and any error it observed raised.
  The errors of a run propagate unchanged when the run observed no error raised and ended
  normally, or observed exactly one, as its last observation, on its way to the top, and
  ended with that very error.
\<close>

fun error_of :: "obs \<Rightarrow> string option" where
  "error_of (Threw s e) = Some e"
| "error_of x = None"

fun raised_of :: "obs \<Rightarrow> string option" where
  "raised_of (Ran s) = None"
| "raised_of (Threw s e) = Some e"
| "raised_of (Dropped s e) = Some e"

definition raised :: "obs list \<Rightarrow> string list" where
  "raised tr = concat (map (\<lambda>x. case raised_of x of None \<Rightarrow> [] | Some e \<Rightarrow> [e]) tr)"

definition propagated :: "obs list \<Rightarrow> string option \<Rightarrow> bool" where
  "propagated tr r =
     (case r of
        None \<Rightarrow> raised tr = []
      | Some e \<Rightarrow> tr \<noteq> [] \<and> raised (butlast tr) = [] \<and> error_of (last tr) = Some e)"

text \<open>
  The observations of a run that are not of a dropped error, and the statements whose
  error was dropped.
\<close>

fun is_dropped :: "obs \<Rightarrow> bool" where
  "is_dropped (Dropped s e) = True"
| "is_dropped x = False"

fun stmt_of :: "obs \<Rightarrow> stmt" where
  "stmt_of (Ran s) = s"
| "stmt_of (Threw s e) = s"
| "stmt_of (Dropped s e) = s"

definition undropped :: "obs list \<Rightarrow> obs list" where
  "undropped tr = filter (\<lambda>x. \<not> is_dropped x) tr"

definition dropped_stmts :: "obs list \<Rightarrow> stmt list" where
  "dropped_stmts tr = map stmt_of (filter is_dropped tr)"

text \<open>
  A statement is free of error handling when neither it nor a statement in its blocks is
  a \<open>try\<close> or a \<open>raise\<close>. The managers of a notebook are the context managers of its
  \<open>with\<close> statements, and its captured statements those of the cells under a magic that
  drops errors.
\<close>

fun no_handler :: "stmt \<Rightarrow> bool" where
  "no_handler (Try b h) = False"
| "no_handler (Raise e) = False"
| "no_handler (For t i b) = list_all no_handler b"
| "no_handler (While c b) = list_all no_handler b"
| "no_handler (If c a b) = (list_all no_handler a \<and> list_all no_handler b)"
| "no_handler (With c b) = list_all no_handler b"
| "no_handler (FunDef f ps b) = list_all no_handler b"
| "no_handler s = True"

fun managers :: "stmt \<Rightarrow> expr list" where
  "managers (For t i b) = concat (map managers b)"
| "managers (While c b) = concat (map managers b)"
| "managers (If c a b) = concat (map managers a) @ concat (map managers b)"
| "managers (With c b) = c # concat (map managers b)"
| "managers (Try b h) = concat (map managers b) @ concat (map managers h)"
| "managers s = []"

definition nb_managers :: "notebook \<Rightarrow> expr list" where
  "nb_managers nb = concat (map managers (nb_stmts nb))"

fun cell_captured :: "cell \<Rightarrow> stmt list" where
  "cell_captured (CodeCell ss) = []"
| "cell_captured (MagicCell m a ss) = (if magic_drops m then concat (map sub_stmts ss) else [])"

definition captured :: "notebook \<Rightarrow> stmt list" where
  "captured nb = concat (map cell_captured nb)"

definition handler_free :: "notebook \<Rightarrow> bool" where
  "handler_free nb = list_all no_handler (nb_stmts nb)"

text \<open>
  A run of the logistic-regression notebook in which \<open>cv.fit\<close>, the last statement of
  the search cell, raises a ValueError: the six cells before the search cell complete,
  the magic of the search cell drops the error, and the next cell raises an
  AttributeError where it reads \<open>cv.best_estimator_\<close>.
\<close>

definition capture_run :: "obs list" where
  "capture_run =
     map Ran (nb_stmts (take 6 logreg_nb)) @
     map Ran (take 3 (cell_stmts logreg_search)) @
     [ Dropped (cell_stmts logreg_search ! 3) ''ValueError'',
       Ran (cell_stmts logreg_report ! 0),
       Threw (cell_stmts logreg_report ! 1) ''AttributeError'' ]"

section \<open>What the library calls of the LSTM notebook compute\<close>

datatype py_error = IndexError | ValueError | KeyError

subsection \<open>Padding\<close>









subsection \<open>The embedding matrix\<close>

text \<open>
  The cell that fills \<open>embedding_matrix\<close>:
  \<^verbatim>\<open>
  embedding_matrix_shape = (len(tokenizer.word_index) + 1, wv.vector_size)
  embedding_matrix = np.zeros(shape=embedding_matrix_shape)
  for word, index in tokenizer.word_index.items():
    if word in wv:
      embedding_matrix[index] = wv.get_vector(word)
    else:
      embedding_matrix[index] = np.zeros(wv.vector_size)
  \<close>
  The word vectors \<open>wv\<close> are a size and a partial map from words to vectors; the word
  index is the list of its items. A matrix is the list of its rows. Assigning to row
  \<open>index\<close> follows numpy: a negative index counts from the end, an index out of range
  raises IndexError, a vector of the row's length is stored, a vector of length one is
  repeated over the row, and any other length raises ValueError. The entries are of any
  type with a zero, as the loop only copies them.
\<close>

record 'a keyed_vectors =
  vector_size :: nat
  get_vector :: "string \<rightharpoonup> 'a list"

definition np_zeros :: "nat \<Rightarrow> 'a::zero list" where
  "np_zeros d = replicate d 0"

definition np_index :: "nat \<Rightarrow> int \<Rightarrow> nat option" where
  "np_index n i =
     (if 0 \<le> i \<and> i < int n then Some (nat i)
      else if - int n \<le> i \<and> i < 0 then Some (nat (i + int n))
      else None)"

definition np_broadcast :: "nat \<Rightarrow> 'a list \<Rightarrow> 'a list option" where
  "np_broadcast d v =
     (if length v = d then Some v
      else if length v = 1 then Some (replicate d (hd v))
      else None)"

definition set_row :: "'a list list \<Rightarrow> int \<Rightarrow> 'a list \<Rightarrow> py_error + 'a list list" where
  "set_row m i v =
     (case np_index (length m) i of
        None \<Rightarrow> Inl IndexError
      | Some r \<Rightarrow>
          (case np_broadcast (length (m ! r)) v of
             None \<Rightarrow> Inl ValueError
           | Some v' \<Rightarrow> Inr (m[r := v'])))"

definition embedding_step ::
  "('a::zero) keyed_vectors \<Rightarrow> 'a list list \<Rightarrow> string \<times> int \<Rightarrow> py_error + 'a list list" where
  "embedding_step wv m x =
     (if fst x \<in> dom (get_vector wv)
      then (case get_vector wv (fst x) of
              None \<Rightarrow> Inl KeyError
            | Some v \<Rightarrow> set_row m (snd x) v)
      else set_row m (snd x) (np_zeros (vector_size wv)))"

fun embedding_loop ::
  "('a::zero) keyed_vectors \<Rightarrow> 'a list list \<Rightarrow> (string \<times> int) list \<Rightarrow> py_error + 'a list list"
  where
  "embedding_loop wv m [] = Inr m"
| "embedding_loop wv m (x # xs) =
     (case embedding_step wv m x of
        Inl e \<Rightarrow> Inl e
      | Inr m' \<Rightarrow> embedding_loop wv m' xs)"

definition embedding_matrix ::
  "('a::zero) keyed_vectors \<Rightarrow> (string \<times> int) list \<Rightarrow> py_error + 'a list list" where
  "embedding_matrix wv word_index =
     embedding_loop wv (replicate (length word_index + 1) (np_zeros (vector_size wv))) word_index"

text \<open>
  The row the loop stores for a word: its vector when the word is in the vocabulary,
  zeros otherwise.
\<close>

definition embedding_row :: "('a::zero) keyed_vectors \<Rightarrow> string \<Rightarrow> 'a list" where
  "embedding_row wv w =
     (case get_vector wv w of Some v \<Rightarrow> v | None \<Rightarrow> np_zeros (vector_size wv))"

text \<open>One pass of the loop that stays in range: the row for the word is stored at its index.\<close>

definition store :: "('a::zero) keyed_vectors \<Rightarrow> string \<times> int \<Rightarrow> 'a list list \<Rightarrow> 'a list list" where
  "store wv x m = m[nat (snd x) := embedding_row wv (fst x)]"

subsection \<open>Seeds\<close>




section \<open>Properties of the publishing workflow\<close>

lemma push_patterns_glob_free: "list_all glob_free (push_patterns pages_workflow)"
  by (simp add: push_patterns_def pages_workflow_def glob_free_def)

lemma deploy_on_branch: "job_triggered pages_workflow ''deploy'' (Push (Branch b)) = (b = ''master'')"
  by (auto simp: job_triggered_def workflow_triggered_def pages_workflow_def deploy_def
      pattern_matches_def)

lemma deploy_not_on_tag: "\<not> job_triggered pages_workflow ''deploy'' (Push (Tag t))"
  by (simp add: job_triggered_def workflow_triggered_def pages_workflow_def)

text \<open>
  Claim C1, as the code has it. The workflow's push filter names the branch \<open>master\<close>:
  a push starts the deploy job if and only if it updates the branch called \<open>master\<close>.
  A pushed tag, and every event that is not a push, starts nothing.
\<close>

theorem C1_deploy_on_push_to_master:
  "job_triggered pages_workflow ''deploy'' ev = (ev = Push (Branch ''master''))"
proof (cases ev)
  case (Push r)
  then show ?thesis
    by (cases r) (simp_all add: deploy_on_branch deploy_not_on_tag)
next
  case (PullRequest b)
  then show ?thesis
    by (simp add: job_triggered_def workflow_triggered_def pages_workflow_def)
next
  case WorkflowDispatch
  then show ?thesis
    by (simp add: job_triggered_def workflow_triggered_def pages_workflow_def)
qed

text \<open>
  Claim C1 as the specification words it fails for a branch called \<open>main\<close>: a push to it
  does not start the deploy job.
\<close>

theorem C1_push_to_main_counterexample:
  "job_triggered pages_workflow ''deploy'' (Push (Branch ''main'')) = False"
  by (simp add: job_triggered_def workflow_triggered_def pages_workflow_def
      pattern_matches_def)

subsection \<open>At most one deployment in progress\<close>

lemma running_append: "running (xs @ ys) = running xs @ running ys"
  by (simp add: running_def)

lemma running_cancel_pending: "running (cancel_where (\<lambda>s. s = Pending) rs) = running rs"
  by (induction rs) (auto simp: running_def cancel_where_def)

lemma running_cancel_all:
  "running (cancel_where (\<lambda>s. s = Pending \<or> s = Running) rs) = []"
  by (induction rs) (auto simp: running_def cancel_where_def)

lemma running_promote: "running rs = [] \<Longrightarrow> length (running (promote rs)) \<le> 1"
  by (induction rs) (auto simp: running_def split: if_splits)

lemma running_complete:
  "length (running (map (\<lambda>x. if fst x = r \<and> snd x = Running then (r, Completed) else x) rs))
     \<le> length (running rs)"
  by (induction rs) (auto simp: running_def)

lemma queue_run_one:
  "length (running rs) \<le> 1 \<Longrightarrow> length (running (queue_run (Some c) r rs)) \<le> 1"
  by (simp add: running_append running_cancel_pending running_cancel_all) (simp add: running_def)

lemma finish_run_one:
  "length (running rs) \<le> 1 \<Longrightarrow> length (running (finish_run r rs)) \<le> 1"
  unfolding finish_run_def Let_def
  using running_complete [of r rs] running_promote by (auto simp del: One_nat_def)

lemma sched_step_one:
  "length (running rs) \<le> 1 \<Longrightarrow> length (running (sched_step (Some c) ev rs)) \<le> 1"
  using queue_run_one [of rs c] finish_run_one [of rs]
  by (cases ev) (simp_all del: queue_run.simps)

lemma fold_sched_one:
  "length (running rs) \<le> 1 \<Longrightarrow> length (running (fold (sched_step (Some c)) evs rs)) \<le> 1"
proof (induction evs arbitrary: rs)
  case Nil
  then show ?case by simp
next
  case (Cons ev evs)
  have "length (running (sched_step (Some c) ev rs)) \<le> 1"
    using Cons.prems by (rule sched_step_one)
  then show ?case
    using Cons.IH by simp
qed

lemma schedule_one: "length (running (schedule (Some c) evs)) \<le> 1"
  unfolding schedule_def by (rule fold_sched_one) (simp add: running_def)

lemma cancel_where_length: "length (cancel_where P rs) = length rs"
  by (simp add: cancel_where_def)

lemma queue_keeps_running:
  "\<not> cancel_in_progress c \<Longrightarrow> running (take (length rs) (queue_run (Some c) r rs)) = running rs"
  by (simp add: cancel_where_length running_cancel_pending)

text \<open>
  Claim C7. The workflow has the single job \<open>deploy\<close>, whose steps are one list, run in
  its order. All runs share the constant concurrency group \<open>pages\<close>. Whatever runs are
  queued and finish, in any order, at most one run is in progress at any time; and a run
  that is queued leaves the runs that were in progress before it in progress: none of them
  is cancelled.
\<close>

theorem C7_single_job_no_overlap:
  "wf_jobs pages_workflow = [deploy] \<and>
   map_option group (wf_concurrency pages_workflow) = Some ''pages'' \<and>
   length (running (schedule (wf_concurrency pages_workflow) evs)) \<le> 1 \<and>
   running (take (length rs) (queue_run (wf_concurrency pages_workflow) r rs)) = running rs"
proof -
  have c: "wf_concurrency pages_workflow = Some \<lparr>group = ''pages'', cancel_in_progress = False\<rparr>"
    by (simp add: pages_workflow_def)
  have "length (running (schedule (wf_concurrency pages_workflow) evs)) \<le> 1"
    unfolding c by (rule schedule_one)
  moreover have
    "running (take (length rs) (queue_run (wf_concurrency pages_workflow) r rs)) = running rs"
    unfolding c by (rule queue_keeps_running) simp
  moreover have "wf_jobs pages_workflow = [deploy]"
    by (simp add: pages_workflow_def)
  ultimately show ?thesis
    using c by simp
qed

section \<open>Properties of the notebooks\<close>

subsection \<open>What each notebook builds and calls\<close>

text \<open>
  Claim C4. In the LSTM notebook \<open>model\<close> is assigned once, a \<open>Sequential\<close> of the four
  layers \<open>Embedding\<close>, \<open>LSTM\<close>, \<open>Dropout\<close>, \<open>Dense\<close> of \<open>tensorflow.keras.layers\<close>, in
  that order. The notebook calls \<open>model.fit\<close> once, in a statement of a cell's top level,
  after \<open>model\<close> and \<open>earlystop\<close> are assigned; the call's \<open>callbacks\<close> list is
  \<open>[earlystop]\<close>, and \<open>earlystop\<close> is an \<open>EarlyStopping\<close> of
  \<open>tensorflow.keras.callbacks\<close>.
\<close>

theorem C4_lstm_network_and_training:
  "map (\<lambda>c. (callee c, map callee (list_arg c))) (assigned lstm_nb [''model'']) =
     [(Some [''Sequential''],
       [Some [''layers'', ''Embedding''], Some [''layers'', ''LSTM''],
        Some [''layers'', ''Dropout''], Some [''layers'', ''Dense'']])] \<and>
   imported lstm_nb ''Sequential'' = [''tensorflow.keras.Sequential''] \<and>
   imported lstm_nb ''layers'' = [''tensorflow.keras.layers''] \<and>
   length (filter (calls_in_stmt [''model'', ''fit'']) (nb_stmts lstm_nb)) = 1 \<and>
   map (kwarg ''callbacks'') (calls_to lstm_nb [''model'', ''fit'']) =
     [Some (ListE [Name ''earlystop''])] \<and>
   map callee (assigned lstm_nb [''earlystop'']) = [Some [''EarlyStopping'']] \<and>
   imported lstm_nb ''EarlyStopping'' = [''tensorflow.keras.callbacks.EarlyStopping''] \<and>
   assigned_at lstm_nb [''model''] < called_at lstm_nb [''model'', ''fit''] \<and>
   assigned_at lstm_nb [''earlystop''] < called_at lstm_nb [''model'', ''fit'']"
  by (intro conjI; code_simp)

lemma logreg_cv:
  "assigned logreg_nb [''cv''] =
     [Call (Name ''RandomizedSearchCV'')
        [Name ''pipeline'', Name ''param_grid'', Kw ''random_state'' (Num 0),
         Kw ''n_jobs'' (Num (- 1)), Kw ''verbose'' (Num 3)]]"
  by code_simp

lemma logreg_grid_size: "grid_size (hd (assigned logreg_nb [''param_grid''])) = 96"
  by code_simp

lemma logreg_candidates:
  "map (\<lambda>c. n_candidates d c (hd (assigned logreg_nb [''param_grid''])))
     (assigned logreg_nb [''cv'']) = [min d 96]"
  unfolding logreg_cv by (simp add: n_candidates_def kwarg_def logreg_grid_size)

text \<open>
  Claim C5. In the logistic-regression notebook \<open>pipeline\<close> is a \<open>Pipeline\<close> of exactly
  three stages: \<open>vectorizer\<close>, a \<open>CountVectorizer\<close>; then \<open>scaler\<close>, a \<open>StandardScaler\<close>;
  then \<open>classifier\<close>, a \<open>LogisticRegression\<close>. The search \<open>cv\<close> is a
  \<open>RandomizedSearchCV\<close> over \<open>pipeline\<close> and \<open>param_grid\<close> that passes no \<open>n_iter\<close>, and
  \<open>cv.fit\<close> is called on the training data. The grid has 96 combinations, and the search
  tries \<open>min d 96\<close> of them, \<open>d\<close> being the library's default number of draws: fewer than
  all of them for every default below 96, and 10 of the 96 at the default of 10 that the
  search cell's stored output reports.
\<close>

theorem C5_logreg_pipeline_and_search:
  "map (\<lambda>c. (callee c, list_arg c)) (assigned logreg_nb [''pipeline'']) =
     [(Some [''Pipeline''],
       [TupleE [Str ''vectorizer'', Name ''vectorizer''],
        TupleE [Str ''scaler'', Name ''scaler''],
        TupleE [Str ''classifier'', Name ''classifier'']])] \<and>
   map callee (assigned logreg_nb [''vectorizer'']) = [Some [''CountVectorizer'']] \<and>
   map callee (assigned logreg_nb [''scaler'']) = [Some [''StandardScaler'']] \<and>
   map callee (assigned logreg_nb [''classifier'']) = [Some [''LogisticRegression'']] \<and>
   imported logreg_nb ''Pipeline'' = [''sklearn.pipeline.Pipeline''] \<and>
   imported logreg_nb ''CountVectorizer'' = [''sklearn.feature_extraction.text.CountVectorizer''] \<and>
   imported logreg_nb ''StandardScaler'' = [''sklearn.preprocessing.StandardScaler''] \<and>
   imported logreg_nb ''LogisticRegression'' = [''sklearn.linear_model.LogisticRegression''] \<and>
   map (\<lambda>c. (callee c, positional c, kwarg ''n_iter'' c)) (assigned logreg_nb [''cv'']) =
     [(Some [''RandomizedSearchCV''], [Name ''pipeline'', Name ''param_grid''], None)] \<and>
   imported logreg_nb ''RandomizedSearchCV'' = [''sklearn.model_selection.RandomizedSearchCV''] \<and>
   map positional (calls_to logreg_nb [''cv'', ''fit'']) = [[Name ''x_train'', Name ''y_train'']] \<and>
   map grid_size (assigned logreg_nb [''param_grid'']) = [96] \<and>
   map (\<lambda>c. n_candidates d c (hd (assigned logreg_nb [''param_grid''])))
     (assigned logreg_nb [''cv'']) = [min d 96] \<and>
   map (\<lambda>c. n_candidates 10 c (hd (assigned logreg_nb [''param_grid''])))
     (assigned logreg_nb [''cv'']) = [10]"
  using logreg_candidates [of 10] by (intro conjI logreg_candidates; code_simp)


subsection \<open>Control flow and names\<close>

text \<open>
  Claim C2, as the code has it. The logistic-regression and the transformer notebook
  are standalone straight-line scripts: they have no loop, no conditional and no \<open>try\<close>,
  and every name they read is bound, by an import or an assignment above or by the
  interpreter, when it is read. The LSTM notebook has one statement that branches or
  repeats at the top level of its cells, the \<open>for\<close> loop that fills the embedding matrix,
  whose body is one \<open>if\<close> with one assignment in each branch; at any depth it has no
  other loop, conditional or \<open>try\<close>. No notebook has a \<open>while\<close> loop, and none reads a
  name imported from a module of threads, processes or tasks.
\<close>

theorem C2_notebooks_run_in_order:
  "filter is_control (nb_stmts lstm_nb) =
     [For (TupleE [Name ''word'', Name ''index''])
        (Call (Attr (Attr (Name ''tokenizer'') ''word_index'') ''items'') [])
        [If (BinOp (Name ''word'') ''in'' (Name ''wv''))
           [Assign (Subscript (Name ''embedding_matrix'') (Name ''index''))
              (Call (Attr (Name ''wv'') ''get_vector'') [Name ''word''])]
           [Assign (Subscript (Name ''embedding_matrix'') (Name ''index''))
              (Call (Attr (Name ''np'') ''zeros'') [Attr (Name ''wv'') ''vector_size''])]]] \<and>
   map keyword (control_stmts lstm_nb) = [''for'', ''if''] \<and>
   control_stmts lstm_nb = control_stmts [lstm_embedding] \<and>
   control_stmts logreg_nb = [] \<and>
   control_stmts roberta_nb = [] \<and>
   undefined_names logreg_nb = [] \<and>
   undefined_names roberta_nb = [] \<and>
   map (\<lambda>nb. filter is_while (all_stmts nb)) [lstm_nb, logreg_nb, roberta_nb] = [[], [], []] \<and>
   map (\<lambda>nb. filter (\<lambda>n. n \<in> set (concurrency_names nb)) (all_reads nb))
     [lstm_nb, logreg_nb, roberta_nb] = [[], [], []]"
  by (intro conjI; code_simp)

text \<open>
  Claim C2 as the specification words it fails for the LSTM notebook: the notebook has a
  loop with a conditional in it, and run from a fresh interpreter it reads the names
  \<open>wv\<close> and \<open>np\<close>, which it neither assigns nor imports.
\<close>

theorem C2_lstm_counterexample:
  "list_ex is_control (all_stmts lstm_nb) \<and>
   remdups (undefined_names lstm_nb) = [''wv'', ''np'']"
  by (intro conjI; code_simp)

subsection \<open>Errors reach the top, except from a captured cell\<close>

lemma raised_append: "raised (a @ b) = raised a @ raised b"
  by (simp add: raised_def)

lemma propagated_None: "propagated tr None = (raised tr = [])"
  by (simp add: propagated_def)

lemma propagated_single: "propagated [Threw s e] (Some e)"
  by (simp add: propagated_def raised_def)

lemma propagated_append:
  "raised tr1 = [] \<Longrightarrow> propagated tr2 r \<Longrightarrow> propagated (tr1 @ tr2) r"
  by (cases r) (auto simp: propagated_def raised_append butlast_append)

lemma raised_Nil_no_drop: "raised tr = [] \<Longrightarrow> filter is_dropped tr = []"
proof (induction tr)
  case Nil
  then show ?case by simp
next
  case (Cons x xs)
  then show ?case by (cases x) (simp_all add: raised_def)
qed

lemma raised_Nil_drop_obs: "raised tr = [] \<Longrightarrow> map drop_obs tr = tr"
proof (induction tr)
  case Nil
  then show ?case by simp
next
  case (Cons x xs)
  then show ?case by (cases x) (simp_all add: raised_def)
qed

lemma propagated_no_drop: "propagated tr r \<Longrightarrow> filter is_dropped tr = []"
proof (cases r)
  case None
  assume "propagated tr r"
  then show ?thesis using None by (simp add: propagated_None raised_Nil_no_drop)
next
  case (Some e)
  assume "propagated tr r"
  then have ne: "tr \<noteq> []" and b: "raised (butlast tr) = []" and l: "error_of (last tr) = Some e"
    using Some by (simp_all add: propagated_def)
  have "\<not> is_dropped (last tr)"
    using l by (cases "last tr") simp_all
  moreover have "filter is_dropped (butlast tr) = []"
    using b by (rule raised_Nil_no_drop)
  moreover have "tr = butlast tr @ [last tr]"
    using ne by simp
  ultimately show ?thesis
    by (metis append_Nil filter.simps(1) filter.simps(2) filter_append)
qed

lemma undropped_id: "filter is_dropped tr = [] \<Longrightarrow> undropped tr = tr"
  by (simp add: undropped_def filter_empty_conv filter_id_conv)

lemma exec_propagates:
  "exec_stmt swallows s tr r \<Longrightarrow> no_handler s \<Longrightarrow>
     list_all (\<lambda>c. \<not> swallows c) (managers s) \<Longrightarrow> propagated tr r"
  "exec_block swallows ss tr r \<Longrightarrow> list_all no_handler ss \<Longrightarrow>
     list_all (\<lambda>c. \<not> swallows c) (concat (map managers ss)) \<Longrightarrow> propagated tr r"
proof (induction rule: exec_stmt_exec_block.inducts)
  case (simple_ok s)
  then show ?case by (simp add: propagated_None raised_def)
next
  case (for_next b tr1 t i tr2 r)
  then have "raised tr1 = []" and "propagated tr2 r"
    by (simp_all add: propagated_None)
  then show ?case by (rule propagated_append)
next
  case (while_next b tr1 c tr2 r)
  then have "raised tr1 = []" and "propagated tr2 r"
    by (simp_all add: propagated_None)
  then show ?case by (rule propagated_append)
next
  case (block_next s tr1 ss tr2 r)
  then have "raised tr1 = []" and "propagated tr2 r"
    by (simp_all add: propagated_None)
  then show ?case by (rule propagated_append)
qed (simp_all add: propagated_single propagated_None raised_def)

lemma stmt_of_drop: "stmt_of (drop_obs x) = stmt_of x"
  by (cases x) simp_all

lemma map_stmt_of_drop: "map stmt_of (map drop_obs tr) = map stmt_of tr"
  by (induction tr) (simp_all add: stmt_of_drop)

lemma exec_origin:
  "exec_stmt swallows s tr r \<Longrightarrow> set (map stmt_of tr) \<subseteq> set (sub_stmts s)"
  "exec_block swallows ss tr r \<Longrightarrow> set (map stmt_of tr) \<subseteq> set (concat (map sub_stmts ss))"
proof (induction rule: exec_stmt_exec_block.inducts)
  case (simple_ok s)
  then show ?case by (cases s) simp_all
next
  case (simple_err s e)
  then show ?case by (cases s) simp_all
next
  case (with_suppress b tr e c)
  then show ?case
    using map_stmt_of_drop [of tr] by auto
next
  case (try_caught b tr1 e h tr2 r)
  then show ?case
    using map_stmt_of_drop [of tr1] by auto
qed auto

lemma drop_last:
  assumes "propagated tr (Some e)"
  shows "undropped (map drop_obs tr) = butlast tr" and "raised (butlast tr) = []"
    and "dropped_stmts (map drop_obs tr) = [stmt_of (last tr)]"
proof -
  have ne: "tr \<noteq> []" and b: "raised (butlast tr) = []" and l: "error_of (last tr) = Some e"
    using assms by (simp_all add: propagated_def)
  obtain s where s: "last tr = Threw s e"
    using l by (cases "last tr") simp_all
  have split: "tr = butlast tr @ [Threw s e]"
    using ne s by (metis append_butlast_last_id)
  have same: "map drop_obs (butlast tr) = butlast tr"
    using b by (rule raised_Nil_drop_obs)
  have none: "filter is_dropped (butlast tr) = []"
    using b by (rule raised_Nil_no_drop)
  have m: "map drop_obs tr = butlast tr @ [Dropped s e]"
    using split same by (metis drop_obs.simps(1) list.simps(8) list.simps(9) map_append)
  show "undropped (map drop_obs tr) = butlast tr"
    unfolding m using undropped_id [OF none] by (simp add: undropped_def)
  show "raised (butlast tr) = []"
    by (rule b)
  show "dropped_stmts (map drop_obs tr) = [stmt_of (last tr)]"
    unfolding m using none s by (simp add: dropped_stmts_def)
qed

lemma cell_propagates:
  assumes "exec_cell swallows c tr r" and "list_all no_handler (cell_stmts c)"
      and "list_all (\<lambda>c. \<not> swallows c) (concat (map managers (cell_stmts c)))"
  shows "propagated (undropped tr) r \<and> set (dropped_stmts tr) \<subseteq> set (cell_captured c)"
  using assms
proof (induction rule: exec_cell.induct)
  case (code_cell ss tr r)
  then have p: "propagated tr r"
    by (auto dest: exec_propagates(2))
  then have "filter is_dropped tr = []"
    by (rule propagated_no_drop)
  then show ?case
    using p by (simp add: undropped_id dropped_stmts_def)
next
  case (magic_ok ss tr m a)
  then have p: "propagated tr None"
    by (auto dest: exec_propagates(2))
  then have "filter is_dropped tr = []"
    by (rule propagated_no_drop)
  then show ?case
    using p by (simp add: undropped_id dropped_stmts_def)
next
  case (magic_pass ss tr e m a)
  then have p: "propagated tr (Some e)"
    by (auto dest: exec_propagates(2))
  then have "filter is_dropped tr = []"
    by (rule propagated_no_drop)
  then show ?case
    using p by (simp add: undropped_id dropped_stmts_def)
next
  case (magic_drop ss tr e m a)
  then have p: "propagated tr (Some e)"
    by (auto dest: exec_propagates(2))
  have ne: "tr \<noteq> []"
    using p by (simp add: propagated_def)
  have "set (map stmt_of tr) \<subseteq> set (concat (map sub_stmts ss))"
    using magic_drop.hyps(1) by (rule exec_origin(2))
  then have "stmt_of (last tr) \<in> set (concat (map sub_stmts ss))"
    using ne by (metis image_eqI last_in_set set_map subsetD)
  then show ?case
    using drop_last [OF p] magic_drop.hyps(2) by (simp add: propagated_None)
qed

lemma undropped_append: "undropped (a @ b) = undropped a @ undropped b"
  by (simp add: undropped_def)

lemma dropped_stmts_append: "dropped_stmts (a @ b) = dropped_stmts a @ dropped_stmts b"
  by (simp add: dropped_stmts_def)

lemma run_propagates:
  "run swallows nb tr r \<Longrightarrow> handler_free nb \<Longrightarrow>
   list_all (\<lambda>c. \<not> swallows c) (nb_managers nb) \<Longrightarrow>
   propagated (undropped tr) r \<and> set (dropped_stmts tr) \<subseteq> set (captured nb)"
proof (induction rule: run.induct)
  case run_end
  then show ?case
    by (simp add: propagated_None raised_def undropped_def dropped_stmts_def)
next
  case (run_next c tr1 cs tr2 r)
  have h1: "list_all no_handler (cell_stmts c)"
    and h2: "list_all (\<lambda>c. \<not> swallows c) (concat (map managers (cell_stmts c)))"
    using run_next.prems by (simp_all add: handler_free_def nb_stmts_def nb_managers_def)
  have c: "propagated (undropped tr1) None \<and> set (dropped_stmts tr1) \<subseteq> set (cell_captured c)"
    using run_next.hyps(1) h1 h2 by (rule cell_propagates)
  have rest: "propagated (undropped tr2) r \<and> set (dropped_stmts tr2) \<subseteq> set (captured cs)"
    using run_next.IH run_next.prems
    by (simp add: handler_free_def nb_stmts_def nb_managers_def)
  have "raised (undropped tr1) = []"
    using c by (simp add: propagated_None)
  then have "propagated (undropped tr1 @ undropped tr2) r"
    using rest by (intro propagated_append) simp_all
  then show ?case
    using c rest by (auto simp: undropped_append dropped_stmts_append captured_def)
next
  case (run_abort c tr e cs)
  have h1: "list_all no_handler (cell_stmts c)"
    and h2: "list_all (\<lambda>c. \<not> swallows c) (concat (map managers (cell_stmts c)))"
    using run_abort.prems by (simp_all add: handler_free_def nb_stmts_def nb_managers_def)
  have "propagated (undropped tr) (Some e) \<and> set (dropped_stmts tr) \<subseteq> set (cell_captured c)"
    using run_abort.hyps h1 h2 by (rule cell_propagates)
  then show ?case
    by (auto simp: captured_def)
qed

lemma notebooks_handler_free:
  "handler_free lstm_nb" "handler_free logreg_nb" "handler_free roberta_nb"
  by code_simp+

lemma notebooks_no_while:
  "filter is_while (all_stmts lstm_nb) = []" "filter is_while (all_stmts logreg_nb) = []"
  "filter is_while (all_stmts roberta_nb) = []"
  by code_simp+

lemma notebooks_captured:
  "captured lstm_nb = []" "captured roberta_nb = []"
  "captured logreg_nb = cell_stmts logreg_search"
  by code_simp+

text \<open>
  Claim C6, as the code has it. Take any of the three notebooks. None of its statements,
  at any depth, is a \<open>try\<close> or a \<open>raise\<close>, and none is a \<open>while\<close> loop. Take any run
  of its cells in which no context manager of the notebook suppresses an error. Then
  every error the run dropped was raised by a statement of a cell under the \<open>capture\<close>
  magic, and the other errors propagate unchanged: the run observed none of them and
  ended normally, or it observed one, as its last observation, and ended with that very
  error. The LSTM and the transformer notebook have no captured statement, so in them
  every error propagates unchanged and ends the run. The captured statements of the
  logistic-regression notebook are those of its search cell.
\<close>

theorem C6_errors_propagate_outside_capture:
  assumes "nb \<in> set [lstm_nb, logreg_nb, roberta_nb]"
      and "list_all (\<lambda>c. \<not> swallows c) (nb_managers nb)"
      and "run swallows nb tr r"
  shows "handler_free nb \<and> filter is_while (all_stmts nb) = [] \<and>
         propagated (undropped tr) r \<and>
         set (dropped_stmts tr) \<subseteq> set (captured nb) \<and>
         captured lstm_nb = [] \<and> captured roberta_nb = [] \<and>
         captured logreg_nb = cell_stmts logreg_search \<and>
         (nb \<noteq> logreg_nb \<longrightarrow> propagated tr r)"
proof -
  have free: "handler_free nb" and loops: "filter is_while (all_stmts nb) = []"
    using assms(1) notebooks_handler_free notebooks_no_while by auto
  have p: "propagated (undropped tr) r \<and> set (dropped_stmts tr) \<subseteq> set (captured nb)"
    using assms(3) free assms(2) by (rule run_propagates)
  have "propagated tr r" if "nb \<noteq> logreg_nb"
  proof -
    have "captured nb = []"
      using that assms(1) notebooks_captured by auto
    then have "filter is_dropped tr = []"
      using p by (simp add: dropped_stmts_def)
    then show ?thesis
      using p by (simp add: undropped_id)
  qed
  then show ?thesis
    using free loops p notebooks_captured by simp
qed

text \<open>
  Runs exist: a block of statements without blocks of their own can complete, and can
  stop at any of its statements; so can a list of plain cells.
\<close>

lemma simple_block_ok: "list_all is_simple ss \<Longrightarrow> exec_block swallows ss (map Ran ss) None"
proof (induction ss)
  case Nil
  show ?case by (simp add: block_end)
next
  case (Cons s ss)
  then have "exec_stmt swallows s [Ran s] None" and "exec_block swallows ss (map Ran ss) None"
    by (simp_all add: simple_ok)
  then have "exec_block swallows (s # ss) ([Ran s] @ map Ran ss) None"
    by (rule block_next)
  then show ?case by simp
qed

lemma simple_block_err:
  "list_all is_simple pre \<Longrightarrow> is_simple s \<Longrightarrow>
   exec_block swallows (pre @ s # post) (map Ran pre @ [Threw s e]) (Some e)"
proof (induction pre)
  case Nil
  then show ?case by (simp add: block_abort simple_err)
next
  case (Cons p pre)
  then have "exec_stmt swallows p [Ran p] None"
    and "exec_block swallows (pre @ s # post) (map Ran pre @ [Threw s e]) (Some e)"
    by (simp_all add: simple_ok)
  then have "exec_block swallows (p # pre @ s # post) ([Ran p] @ map Ran pre @ [Threw s e]) (Some e)"
    by (rule block_next)
  then show ?case by simp
qed

lemma simple_cells_run:
  "list_all (\<lambda>c. c = CodeCell (cell_stmts c) \<and> list_all is_simple (cell_stmts c)) cs \<Longrightarrow>
   run swallows rest tr r \<Longrightarrow>
   run swallows (cs @ rest) (map Ran (nb_stmts cs) @ tr) r"
proof (induction cs)
  case Nil
  then show ?case by (simp add: nb_stmts_def)
next
  case (Cons c cs)
  then have code: "c = CodeCell (cell_stmts c)" and simple: "list_all is_simple (cell_stmts c)"
    and tail: "run swallows (cs @ rest) (map Ran (nb_stmts cs) @ tr) r"
    by simp_all
  have "exec_block swallows (cell_stmts c) (map Ran (cell_stmts c)) None"
    using simple by (rule simple_block_ok)
  then have "exec_cell swallows (CodeCell (cell_stmts c)) (map Ran (cell_stmts c)) None"
    by (rule code_cell)
  then have "exec_cell swallows c (map Ran (cell_stmts c)) None"
    using code by simp
  then have "run swallows (c # cs @ rest) (map Ran (cell_stmts c) @ map Ran (nb_stmts cs) @ tr) r"
    using tail by (rule run_next)
  then show ?case by (simp add: nb_stmts_def)
qed

text \<open>The run of the logistic-regression notebook in which \<open>cv.fit\<close> raises is a run.\<close>

lemma logreg_capture_run: "run (\<lambda>c. False) logreg_nb capture_run (Some ''AttributeError'')"
proof -
  let ?sw = "\<lambda>c::expr. False"
  let ?search = "cell_stmts logreg_search"
  let ?report = "cell_stmts logreg_report"
  have report: "?report = [?report ! 0] @ (?report ! 1) # [?report ! 2]"
    by (simp add: logreg_report_def)
  have "exec_block ?sw ([?report ! 0] @ (?report ! 1) # [?report ! 2])
      (map Ran [?report ! 0] @ [Threw (?report ! 1) ''AttributeError'']) (Some ''AttributeError'')"
    by (rule simple_block_err) (simp_all add: logreg_report_def)
  then have "exec_block ?sw ?report
      [Ran (?report ! 0), Threw (?report ! 1) ''AttributeError''] (Some ''AttributeError'')"
    using report by simp
  then have "exec_cell ?sw (CodeCell ?report)
      [Ran (?report ! 0), Threw (?report ! 1) ''AttributeError''] (Some ''AttributeError'')"
    by (rule code_cell)
  then have "exec_cell ?sw logreg_report
      [Ran (?report ! 0), Threw (?report ! 1) ''AttributeError''] (Some ''AttributeError'')"
    by (simp add: logreg_report_def)
  then have a: "run ?sw [logreg_report, logreg_best]
      [Ran (?report ! 0), Threw (?report ! 1) ''AttributeError''] (Some ''AttributeError'')"
    by (rule run_abort)
  have search: "?search = take 3 ?search @ (?search ! 3) # []"
    by (simp add: logreg_search_def numeral_3_eq_3)
  have "exec_block ?sw (take 3 ?search @ (?search ! 3) # [])
      (map Ran (take 3 ?search) @ [Threw (?search ! 3) ''ValueError'']) (Some ''ValueError'')"
    by (rule simple_block_err) (simp_all add: logreg_search_def numeral_3_eq_3)
  then have "exec_block ?sw ?search
      (map Ran (take 3 ?search) @ [Threw (?search ! 3) ''ValueError'']) (Some ''ValueError'')"
    using search by simp
  then have "exec_cell ?sw (MagicCell ''capture'' ''--no-stdout'' ?search)
      (map drop_obs (map Ran (take 3 ?search) @ [Threw (?search ! 3) ''ValueError''])) None"
    by (rule magic_drop) (simp add: magic_drops_def)
  then have b: "exec_cell ?sw logreg_search
      (map Ran (take 3 ?search) @ [Dropped (?search ! 3) ''ValueError'']) None"
    by (simp add: logreg_search_def comp_def)
  have c: "run ?sw ([logreg_search] @ [logreg_report, logreg_best])
      ((map Ran (take 3 ?search) @ [Dropped (?search ! 3) ''ValueError'']) @
        [Ran (?report ! 0), Threw (?report ! 1) ''AttributeError'']) (Some ''AttributeError'')"
    using run_next [OF b a] by simp
  have simple: "list_all (\<lambda>c. c = CodeCell (cell_stmts c) \<and> list_all is_simple (cell_stmts c))
      (take 6 logreg_nb)"
    by code_simp
  have nb: "logreg_nb = take 6 logreg_nb @ [logreg_search] @ [logreg_report, logreg_best]"
    by (simp add: logreg_nb_def)
  have "run ?sw (take 6 logreg_nb @ [logreg_search] @ [logreg_report, logreg_best])
      (map Ran (nb_stmts (take 6 logreg_nb)) @
        (map Ran (take 3 ?search) @ [Dropped (?search ! 3) ''ValueError'']) @
        [Ran (?report ! 0), Threw (?report ! 1) ''AttributeError'']) (Some ''AttributeError'')"
    using simple c by (rule simple_cells_run)
  then show ?thesis
    unfolding capture_run_def using nb by simp
qed

text \<open>
  Claim C6 at that run: apart from the dropped error of \<open>cv.fit\<close>, a statement of the
  search cell, the run observed one error, the last, and ended with it.
\<close>

theorem C6_errors_propagate_outside_capture_witness:
  "run (\<lambda>c. False) logreg_nb capture_run (Some ''AttributeError'') \<and>
   propagated (undropped capture_run) (Some ''AttributeError'') \<and>
   set (dropped_stmts capture_run) \<subseteq> set (cell_stmts logreg_search)"
proof -
  have a: "logreg_nb \<in> set [lstm_nb, logreg_nb, roberta_nb]" by simp
  have b: "list_all (\<lambda>c. \<not> (\<lambda>c. False) c) (nb_managers logreg_nb)" by (simp add: list_all_iff)
  note all = C6_errors_propagate_outside_capture [OF a b logreg_capture_run]
  have p: "propagated (undropped capture_run) (Some ''AttributeError'')"
    using all by blast
  have d: "set (dropped_stmts capture_run) \<subseteq> set (captured logreg_nb)"
    using all by blast
  have c: "captured logreg_nb = cell_stmts logreg_search"
    using all by blast
  show ?thesis
    using logreg_capture_run p d [unfolded c] by blast
qed

text \<open>
  Claim C6 as the specification words it fails at that run: \<open>cv.fit\<close> raises a
  ValueError, the run goes on, and it ends with another error, an AttributeError of the
  next cell.
\<close>

theorem C6_capture_counterexample:
  "run (\<lambda>c. False) logreg_nb capture_run (Some ''AttributeError'') \<and>
   raised capture_run = [''ValueError'', ''AttributeError''] \<and>
   \<not> propagated capture_run (Some ''AttributeError'')"
proof -
  have "raised capture_run = [''ValueError'', ''AttributeError'']"
    by code_simp
  moreover have "\<not> propagated capture_run (Some ''AttributeError'')"
    by code_simp
  ultimately show ?thesis
    using logreg_capture_run by simp
qed

section \<open>Properties of the LSTM notebook's library calls\<close>

subsection \<open>Padding\<close>







subsection \<open>Embedding\<close>

lemma set_row_ok:
  "0 \<le> i \<Longrightarrow> nat i < length m \<Longrightarrow> length v = length (m ! nat i) \<Longrightarrow>
   set_row m i v = Inr (m[nat i := v])"
  by (simp add: set_row_def np_index_def np_broadcast_def)

lemma embedding_row_length:
  "\<forall>w v. get_vector wv w = Some v \<longrightarrow> length v = vector_size wv \<Longrightarrow>
   length (embedding_row wv w) = vector_size wv"
  by (simp add: embedding_row_def np_zeros_def split: option.splits)

lemma embedding_step_ok:
  assumes "\<forall>w v. get_vector wv w = Some v \<longrightarrow> length v = vector_size wv"
      and "\<forall>r \<in> set m. length r = vector_size wv"
      and "0 \<le> snd x" and "nat (snd x) < length m"
  shows "embedding_step wv m x = Inr (m[nat (snd x) := embedding_row wv (fst x)])"
proof -
  have row: "length (m ! nat (snd x)) = vector_size wv"
    using assms(2,4) by simp
  show ?thesis
  proof (cases "get_vector wv (fst x)")
    case None
    then show ?thesis
      using assms(3,4) row
      by (simp add: embedding_step_def embedding_row_def dom_def set_row_ok np_zeros_def)
  next
    case (Some v)
    then have "length v = vector_size wv" using assms(1) by simp
    then show ?thesis
      using Some assms(3,4) row
      by (simp add: embedding_step_def embedding_row_def dom_def set_row_ok)
  qed
qed

lemma store_rows:
  "\<forall>w v. get_vector wv w = Some v \<longrightarrow> length v = vector_size wv \<Longrightarrow>
   \<forall>r \<in> set m. length r = vector_size wv \<Longrightarrow>
   \<forall>r \<in> set (store wv x m). length r = vector_size wv"
  unfolding store_def using embedding_row_length [of wv "fst x"]
  by (auto dest!: subsetD [OF set_update_subset_insert])

lemma embedding_loop_fold:
  assumes "\<forall>w v. get_vector wv w = Some v \<longrightarrow> length v = vector_size wv"
  shows "\<forall>r \<in> set m. length r = vector_size wv \<Longrightarrow>
         \<forall>x \<in> set xs. 0 \<le> snd x \<and> nat (snd x) < length m \<Longrightarrow>
         embedding_loop wv m xs = Inr (fold (store wv) xs m)"
proof (induction xs arbitrary: m)
  case Nil
  then show ?case by simp
next
  case (Cons x xs)
  have step: "embedding_step wv m x = Inr (store wv x m)"
    unfolding store_def using assms Cons.prems by (intro embedding_step_ok) auto
  have rows: "\<forall>r \<in> set (store wv x m). length r = vector_size wv"
    using assms Cons.prems(1) by (rule store_rows)
  have idx: "\<forall>y \<in> set xs. 0 \<le> snd y \<and> nat (snd y) < length (store wv x m)"
    using Cons.prems(2) by (simp add: store_def)
  show ?case
    using Cons.IH [OF rows idx] step by simp
qed

lemma fold_store_length: "length (fold (store wv) xs m) = length m"
  by (induction xs arbitrary: m) (simp_all add: store_def)

lemma fold_store_other:
  "j \<notin> (\<lambda>x. nat (snd x)) ` set xs \<Longrightarrow> fold (store wv) xs m ! j = m ! j"
  by (induction xs arbitrary: m) (simp_all add: store_def)

lemma fold_store_hit:
  "distinct (map (\<lambda>x. nat (snd x)) xs) \<Longrightarrow> x \<in> set xs \<Longrightarrow> nat (snd x) < length m \<Longrightarrow>
   fold (store wv) xs m ! nat (snd x) = embedding_row wv (fst x)"
proof (induction xs arbitrary: m)
  case Nil
  then show ?case by simp
next
  case (Cons y ys)
  show ?case
  proof (cases "x = y")
    case True
    have "nat (snd x) \<notin> (\<lambda>x. nat (snd x)) ` set ys"
      using Cons.prems(1) True by auto
    then have a: "fold (store wv) ys (store wv y m) ! nat (snd x) = store wv y m ! nat (snd x)"
      by (rule fold_store_other)
    have b: "store wv y m ! nat (snd y) = embedding_row wv (fst y)"
      using True Cons.prems(3) by (simp add: store_def)
    show ?thesis
      using a b True by simp
  next
    case False
    then have "x \<in> set ys" using Cons.prems(2) by simp
    moreover have "distinct (map (\<lambda>x. nat (snd x)) ys)" using Cons.prems(1) by simp
    moreover have "nat (snd x) < length (store wv y m)"
      using Cons.prems(3) by (simp add: store_def)
    ultimately show ?thesis
      using Cons.IH by simp
  qed
qed

lemma distinct_nat_index:
  "distinct (map snd xs) \<Longrightarrow> \<forall>x \<in> set xs. (0::int) \<le> snd x \<Longrightarrow>
   distinct (map (\<lambda>x. nat (snd x)) (xs :: (string \<times> int) list))"
proof (induction xs)
  case Nil
  then show ?case by simp
next
  case (Cons y ys)
  have "nat (snd y) \<notin> (\<lambda>x. nat (snd x)) ` set ys"
  proof
    assume "nat (snd y) \<in> (\<lambda>x. nat (snd x)) ` set ys"
    then obtain z where z: "z \<in> set ys" and eq: "nat (snd y) = nat (snd z)"
      by auto
    have "0 \<le> snd y" and "0 \<le> snd z"
      using Cons.prems(2) z by auto
    then have "snd y = snd z"
      using eq by simp
    then show False
      using Cons.prems(1) z by force
  qed
  then show ?case
    using Cons by simp
qed

text \<open>
  Claim C8. Take word vectors whose vectors all have the stated size, and a word index
  whose indices are distinct and lie between 1 and the number of its items, as the
  tokenizer numbers its words. Then the loop ends without an error; the matrix has one
  row more than the index has items; row 0 is all zero; and for every item
  \<open>(word, index)\<close>, row \<open>index\<close> is the vector of \<open>word\<close> when the vectors have the
  word, and all zero otherwise.
\<close>

theorem C8_embedding_rows:
  assumes "\<forall>w v. get_vector wv w = Some v \<longrightarrow> length v = vector_size wv"
      and "distinct (map snd word_index)"
      and "\<forall>x \<in> set word_index. 1 \<le> snd x \<and> snd x \<le> int (length word_index)"
  shows "\<exists>m. embedding_matrix wv word_index = Inr m \<and>
           length m = length word_index + 1 \<and>
           m ! 0 = np_zeros (vector_size wv) \<and>
           (\<forall>x \<in> set word_index.
              m ! nat (snd x) =
                (case get_vector wv (fst x) of
                   Some v \<Rightarrow> v
                 | None \<Rightarrow> np_zeros (vector_size wv)))"
proof -
  let ?init = "replicate (length word_index + 1) (np_zeros (vector_size wv) :: 'a list)"
  let ?res = "fold (store wv) word_index ?init"
  have rows: "\<forall>r \<in> set ?init. length r = vector_size wv"
    by (simp add: np_zeros_def)
  have idx: "\<forall>x \<in> set word_index. 0 \<le> snd x \<and> nat (snd x) < length ?init"
    using assms(3) by auto
  have run: "embedding_matrix wv word_index = Inr ?res"
    using embedding_loop_fold [OF assms(1) rows idx] by (simp only: embedding_matrix_def)
  have len: "length ?res = length word_index + 1"
    by (simp add: fold_store_length)
  have "0 \<notin> (\<lambda>x. nat (snd x)) ` set word_index"
    using assms(3) by auto
  then have "?res ! 0 = ?init ! 0"
    by (rule fold_store_other)
  then have zero: "?res ! 0 = np_zeros (vector_size wv)"
    by simp
  have dist: "distinct (map (\<lambda>x. nat (snd x)) word_index)"
    using assms(2,3) by (intro distinct_nat_index) auto
  have hit: "\<forall>x \<in> set word_index. ?res ! nat (snd x) = embedding_row wv (fst x)"
    using dist idx by (auto intro!: fold_store_hit)
  show ?thesis
    using run len zero hit unfolding embedding_row_def by blast
qed

text \<open>Claim C8 at a vocabulary of one word and an index of two.\<close>

theorem C8_embedding_rows_witness:
  "embedding_matrix \<lparr>vector_size = 2, get_vector = [''good'' \<mapsto> [3, 4 :: int]]\<rparr>
     [(''good'', 1), (''zzz'', 2)] = Inr [[0, 0], [3, 4], [0, 0]]"
proof -
  let ?wv = "\<lparr>vector_size = 2, get_vector = [''good'' \<mapsto> [3, 4 :: int]]\<rparr>"
  let ?wi = "[(''good'', 1), (''zzz'', 2)] :: (string \<times> int) list"
  have h1: "\<forall>w v. get_vector ?wv w = Some v \<longrightarrow> length v = vector_size ?wv"
    by (simp split: if_splits)
  have h2: "distinct (map snd ?wi)" by simp
  have h3: "\<forall>x \<in> set ?wi. 1 \<le> snd x \<and> snd x \<le> int (length ?wi)" by simp
  from C8_embedding_rows [OF h1 h2 h3]
  obtain m where m: "embedding_matrix ?wv ?wi = Inr m" and "length m = 3"
    and "m ! 0 = np_zeros 2" and "m ! 1 = [3, 4]" and "m ! 2 = np_zeros 2"
    by (auto simp: np_zeros_def)
  then have "m = [[0, 0], [3, 4], [0, 0]]"
    by (cases m; simp add: np_zeros_def; rename_tac a as; case_tac as; simp;
        rename_tac b bs; case_tac bs; simp add: numeral_2_eq_2)
  with m show ?thesis by simp
qed

subsection \<open>Seeds\<close>






end
